theory Spec2Isabelle
  imports Main "HOL-Library.Word"
begin

section \<open>Machine types and sizes\<close>

text \<open>
  The embedding follows \<^verbatim>\<open>dxcore.c\<close> and \<^verbatim>\<open>dxcore.h\<close> as compiled for
  Linux on a 64-bit target: \<^verbatim>\<open>unsigned int\<close> is 32 bits wide, \<^verbatim>\<open>wchar_t\<close> is
  4 bytes, pointers are 8 bytes. A pointer is an address; address 0 is the null pointer.
\<close>

type_synonym ptr = nat
type_synonym uint = "32 word"
type_synonym wchar_t = "32 word"
type_synonym cchar = "8 word"

abbreviation NULL :: ptr where
  "NULL \<equiv> 0"

definition sizeof_wchar_t :: nat where
  "sizeof_wchar_t = 4"

definition DXCORE_MAX_PATH :: nat where
  "DXCORE_MAX_PATH = 260"

definition MAX_DXCORE_DRIVERSTORE_LIBRAIRIES :: nat where
  "MAX_DXCORE_DRIVERSTORE_LIBRAIRIES = 16"

definition DXCORE_QUERYDRIVERVERSION :: uint where
  "DXCORE_QUERYDRIVERVERSION = 13"

definition DXCORE_QUERYREGISTRY :: uint where
  "DXCORE_QUERYREGISTRY = 48"

definition DXCORE_QUERYREGISTRY_DRIVERSTOREPATH :: uint where
  "DXCORE_QUERYREGISTRY_DRIVERSTOREPATH = 2"

section \<open>The structures of dxcore.h and dxcore.c\<close>

record dxcore_luid =
  lowPart :: uint
  highPart :: "32 word"

text \<open>
  \<^verbatim>\<open>struct dxcore_adapter\<close>, the element type of the registry. It has no field
  for the LUID of the adapter.
\<close>

record dxcore_adapter =
  hAdapter :: uint
  wddmVersion :: uint
  pDriverStorePath :: ptr
  driverStoreComponentCount :: uint
  pDriverStoreComponents :: "ptr list"
  pContext :: ptr

record dxcore_context =
  adapterCount :: uint
  adapterList :: ptr
  initialized :: int

record dxcore_lib =
  hDxcoreLib :: ptr
  pDxcoreEnumAdapters2 :: ptr
  pDxcoreQueryAdapterInfo :: ptr

text \<open>\<^verbatim>\<open>struct dxcore_adapterInfo\<close>; its handle field is \<open>hAdapter\<close> in the source.\<close>

record dxcore_adapterInfo =
  info_hAdapter :: uint
  AdapterLuid :: dxcore_luid
  NumOfSources :: uint
  bPresentMoveRegionsPreferred :: uint

text \<open>
  \<^verbatim>\<open>struct dxcore_queryregistry_info\<close>. \<open>Output\<close> is the storage that starts at
  the trailing union and runs to the end of the object that holds the structure, read
  as wide characters: two of them for a structure on the stack, more for one allocated
  with room behind it.
\<close>

record dxcore_queryregistry_info =
  QueryType :: uint
  QueryFlags :: uint
  ValueName :: "wchar_t list"
  ValueType :: uint
  PhysicalAdapterIndex :: uint
  OutputValueSize :: uint
  Status :: uint
  Output :: "wchar_t list"

text \<open>
  What \<^verbatim>\<open>pPrivateDriverData\<close> points to: an \<^verbatim>\<open>unsigned int\<close> for the version
  query, a registry structure for the registry query.
\<close>

datatype private_data =
    VersionData uint
  | RegistryData dxcore_queryregistry_info

text \<open>\<^verbatim>\<open>struct dxcore_queryAdapterInfo\<close>; \<open>hAdapter\<close> and \<open>Type\<close> in the source.\<close>

record dxcore_queryAdapterInfo =
  query_hAdapter :: uint
  query_Type :: uint
  pPrivateDriverData :: private_data
  PrivateDriverDataSize :: uint

definition sizeof_dxcore_adapterInfo :: nat where
  "sizeof_dxcore_adapterInfo = 20"

definition sizeof_dxcore_adapter :: nat where
  "sizeof_dxcore_adapter = 160"

definition sizeof_dxcore_queryregistry_info :: nat where
  "sizeof_dxcore_queryregistry_info = 1072"

definition sizeof_uint :: nat where
  "sizeof_uint = 4"

section \<open>The world outside the functions\<close>

text \<open>
  Every call that leaves \<^verbatim>\<open>dxcore.c\<close> (the dynamic loader, the allocator, the two
  entry points of libdxcore) is recorded as an event, newest first.
\<close>

datatype event =
    Ev_dlopen string
  | Ev_dlsym ptr string
  | Ev_dlclose ptr
  | Ev_malloc nat
  | Ev_calloc nat nat
  | Ev_realloc ptr nat
  | Ev_free ptr
  | Ev_EnumAdapters2 uint ptr
  | Ev_QueryAdapterInfo dxcore_queryAdapterInfo

text \<open>The objects an allocation can hold.\<close>

datatype block =
    CharBuf "cchar list"
  | AdapterArr "dxcore_adapter list"
  | InfoArr "dxcore_adapterInfo list"
  | RegInfo dxcore_queryregistry_info

text \<open>
  \<open>ctxs\<close> holds the session structures of the caller, by address; \<open>heap\<close> holds the
  live allocations; \<open>brk\<close> is the highest address the allocator has handed out.
\<close>

record world =
  ctxs :: "ptr \<rightharpoonup> dxcore_context"
  heap :: "ptr \<rightharpoonup> block"
  brk :: ptr
  trace :: "event list"

text \<open>
  The environment answers each outside call. An answer is a function of the calls made
  so far, the one being answered first in the list, so that an environment may answer
  the same call differently each time. \<open>junk_adapter\<close> is the indeterminate content
  of memory that \<^verbatim>\<open>realloc\<close> adds; \<open>wctomb_res\<close> is the conversion of one wide
  character in the current locale, \<open>None\<close> where the character has no multibyte form.
\<close>

record env =
  dlopen_res :: "event list \<Rightarrow> ptr"
  dlsym_res :: "event list \<Rightarrow> ptr"
  alloc_res :: "event list \<Rightarrow> bool"
  junk_adapter :: "event list \<Rightarrow> dxcore_adapter"
  wctomb_res :: "wchar_t \<Rightarrow> cchar list option"
  EnumAdapters2_res :: "event list \<Rightarrow> int \<times> uint \<times> dxcore_adapterInfo list"
  QueryAdapterInfo_res :: "event list \<Rightarrow> int \<times> private_data"

text \<open>The undefined behaviours of C that the functions can reach.\<close>

datatype fault = NullDeref | InvalidPointer | OutOfBounds | InvalidFree

definition log_event :: "event \<Rightarrow> world \<Rightarrow> world" where
  "log_event e w = w\<lparr>trace := e # trace w\<rparr>"

section \<open>The C library\<close>

definition dlopen :: "env \<Rightarrow> string \<Rightarrow> world \<Rightarrow> ptr \<times> world" where
  "dlopen env name w = (let w1 = log_event (Ev_dlopen name) w in (dlopen_res env (trace w1), w1))"

definition dlsym :: "env \<Rightarrow> ptr \<Rightarrow> string \<Rightarrow> world \<Rightarrow> ptr \<times> world" where
  "dlsym env h name w = (let w1 = log_event (Ev_dlsym h name) w in (dlsym_res env (trace w1), w1))"

definition dlclose :: "ptr \<Rightarrow> world \<Rightarrow> world" where
  "dlclose h w = log_event (Ev_dlclose h) w"

text \<open>
  An allocation that succeeds returns the address after \<open>brk\<close>, which is never null,
  holding the given object; one that fails returns null and changes nothing.
\<close>

definition alloc :: "env \<Rightarrow> event \<Rightarrow> block \<Rightarrow> world \<Rightarrow> ptr \<times> world" where
  "alloc env e b w =
     (let w1 = log_event e w in
      if alloc_res env (trace w1)
      then (Suc (brk w1), w1\<lparr>heap := (heap w1)(Suc (brk w1) \<mapsto> b), brk := Suc (brk w1)\<rparr>)
      else (NULL, w1))"

definition malloc :: "env \<Rightarrow> nat \<Rightarrow> block \<Rightarrow> world \<Rightarrow> ptr \<times> world" where
  "malloc env sz b w = alloc env (Ev_malloc sz) b w"

definition calloc :: "env \<Rightarrow> nat \<Rightarrow> nat \<Rightarrow> block \<Rightarrow> world \<Rightarrow> ptr \<times> world" where
  "calloc env nmemb sz b w = alloc env (Ev_calloc nmemb sz) b w"

text \<open>\<^verbatim>\<open>free(NULL)\<close> does nothing; freeing what is not a live allocation is undefined.\<close>

definition free :: "ptr \<Rightarrow> world \<Rightarrow> fault + world" where
  "free p w =
     (let w1 = log_event (Ev_free p) w in
      if p = NULL then Inr w1
      else if heap w1 p = None then Inl InvalidFree
      else Inr (w1\<lparr>heap := (heap w1)(p := None)\<rparr>))"

text \<open>
  \<^verbatim>\<open>realloc\<close> on the registry array. On success the old object is gone and a new
  one of \<open>sz\<close> bytes holds the old elements, then indeterminate ones; on failure null
  is returned and the old object stays.
\<close>

definition realloc :: "env \<Rightarrow> ptr \<Rightarrow> nat \<Rightarrow> world \<Rightarrow> fault + (ptr \<times> world)" where
  "realloc env p sz w =
     (let w1 = log_event (Ev_realloc p sz) w;
          n = sz div sizeof_dxcore_adapter;
          grow = (\<lambda>old. take n old @ replicate (n - length old) (junk_adapter env (trace w1)))
      in if p = NULL
         then (if alloc_res env (trace w1)
               then Inr (Suc (brk w1),
                         w1\<lparr>heap := (heap w1)(Suc (brk w1) \<mapsto> AdapterArr (grow [])), brk := Suc (brk w1)\<rparr>)
               else Inr (NULL, w1))
         else (case heap w1 p of
                 Some (AdapterArr old) \<Rightarrow>
                   if alloc_res env (trace w1)
                   then Inr (Suc (brk w1),
                             w1\<lparr>heap := ((heap w1)(p := None))(Suc (brk w1) \<mapsto> AdapterArr (grow old)),
                                brk := Suc (brk w1)\<rparr>)
                   else Inr (NULL, w1)
               | _ \<Rightarrow> Inl InvalidFree))"

text \<open>
  \<^verbatim>\<open>wcstombs(dst, src, n)\<close>: the bytes it stores at the start of \<open>dst\<close> and its
  return value. It converts wide characters in turn and stops after storing a null
  byte, before a character whose bytes would go past \<open>n\<close>, or at a character with no
  multibyte form, where it returns \<open>-1\<close>.
\<close>

fun wcstombs :: "(wchar_t \<Rightarrow> cchar list option) \<Rightarrow> wchar_t list \<Rightarrow> nat \<Rightarrow> cchar list \<times> int" where
  "wcstombs conv [] n = ([], 0)"
| "wcstombs conv (c # cs) n =
     (if c = 0 then (if 0 < n then ([0], 0) else ([], 0))
      else (case conv c of
              None \<Rightarrow> ([], -1)
            | Some bs \<Rightarrow>
                if n < length bs then ([], 0)
                else (case wcstombs conv cs (n - length bs) of
                        (rest, r) \<Rightarrow> (bs @ rest, if r < 0 then r else int (length bs) + r))))"

section \<open>Queries to libdxcore\<close>

definition dxcore_query_adapter_info_helper ::
  "env \<Rightarrow> dxcore_lib \<Rightarrow> uint \<Rightarrow> uint \<Rightarrow> private_data \<Rightarrow> uint \<Rightarrow> world \<Rightarrow> fault + (int \<times> private_data \<times> world)" where
  "dxcore_query_adapter_info_helper env pLib hAdapter' type pPrivateDriverDate privateDriverDataSize w =
     (let queryAdapterInfo = \<lparr>query_hAdapter = hAdapter', query_Type = type,
                               pPrivateDriverData = pPrivateDriverDate,
                               PrivateDriverDataSize = privateDriverDataSize\<rparr>
      in if pDxcoreQueryAdapterInfo pLib = NULL then Inl NullDeref
         else (let w1 = log_event (Ev_QueryAdapterInfo queryAdapterInfo) w
               in case QueryAdapterInfo_res env (trace w1) of (rc, d) \<Rightarrow> Inr (rc, d, w1)))"

text \<open>What the caller's \<^verbatim>\<open>unsigned int\<close> holds after the call.\<close>

definition version_of :: "uint \<Rightarrow> private_data \<Rightarrow> uint" where
  "version_of old d = (case d of VersionData v \<Rightarrow> v | RegistryData _ \<Rightarrow> old)"

definition dxcore_query_adapter_wddm_version ::
  "env \<Rightarrow> dxcore_lib \<Rightarrow> uint \<Rightarrow> uint \<Rightarrow> world \<Rightarrow> fault + (int \<times> uint \<times> world)" where
  "dxcore_query_adapter_wddm_version env pLib hAdapter' version w =
     (case dxcore_query_adapter_info_helper env pLib hAdapter' DXCORE_QUERYDRIVERVERSION
             (VersionData version) (of_nat sizeof_uint) w of
        Inl f \<Rightarrow> Inl f
      | Inr (rc, d, w1) \<Rightarrow> Inr (rc, version_of version d, w1))"

text \<open>
  What the caller's registry structure holds after the call: its storage for \<open>Output\<close>
  has \<open>cap\<close> wide characters, all zero before the call.
\<close>

definition registry_of :: "nat \<Rightarrow> dxcore_queryregistry_info \<Rightarrow> private_data \<Rightarrow> dxcore_queryregistry_info" where
  "registry_of cap old d =
     (case d of
        RegistryData v \<Rightarrow> v\<lparr>Output := take cap (Output v @ replicate cap 0)\<rparr>
      | VersionData _ \<Rightarrow> old)"

definition zero_queryregistry_info :: "nat \<Rightarrow> dxcore_queryregistry_info" where
  "zero_queryregistry_info cap =
     \<lparr>QueryType = 0, QueryFlags = 0, ValueName = replicate DXCORE_MAX_PATH 0, ValueType = 0,
      PhysicalAdapterIndex = 0, OutputValueSize = 0, Status = 0, Output = replicate cap 0\<rparr>"

text \<open>
  \<^verbatim>\<open>dxcore_query_adapter_driverstore\<close>. \<open>ppDriverStorePath\<close> is the value of the
  caller's pointer before the call; the result carries its value after it. The
  allocation for \<open>pValue\<close> is \<open>outputSizeInBytes + sizeof(wchar_t)\<close> bytes behind the
  structure, whose union is 8 bytes, so the storage from \<open>Output\<close> on holds
  \<open>outputSize + 3\<close> wide characters.
\<close>

definition dxcore_query_adapter_driverstore ::
  "env \<Rightarrow> dxcore_lib \<Rightarrow> uint \<Rightarrow> ptr \<Rightarrow> world \<Rightarrow> fault + (int \<times> ptr \<times> world)" where
  "dxcore_query_adapter_driverstore env pLib hAdapter' ppDriverStorePath w =
     (let params0 = (zero_queryregistry_info 2)\<lparr>QueryType := DXCORE_QUERYREGISTRY_DRIVERSTOREPATH\<rparr>
      in case dxcore_query_adapter_info_helper env pLib hAdapter' DXCORE_QUERYREGISTRY
                (RegistryData params0) (of_nat sizeof_dxcore_queryregistry_info) w of
           Inl f \<Rightarrow> Inl f
         | Inr (rc, d, w1) \<Rightarrow>
             if rc \<noteq> 0 then Inr (-1, ppDriverStorePath, w1)
             else
               (let params = registry_of 2 params0 d
                in if DXCORE_MAX_PATH * sizeof_wchar_t < unat (OutputValueSize params)
                   then Inr (-1, ppDriverStorePath, w1)
                   else
                     (let outputSizeInBytes = unat (OutputValueSize params);
                          outputSize = outputSizeInBytes div sizeof_wchar_t;
                          v0 = zero_queryregistry_info (outputSize + 3)
                      in case calloc env (sizeof_dxcore_queryregistry_info + outputSizeInBytes + sizeof_wchar_t) 1
                                (RegInfo v0) w1 of
                           (pValue, w2) \<Rightarrow>
                             if pValue = NULL then Inr (-1, ppDriverStorePath, w2)
                             else
                               (let v1 = v0\<lparr>QueryType := DXCORE_QUERYREGISTRY_DRIVERSTOREPATH,
                                            OutputValueSize := of_nat outputSizeInBytes\<rparr>
                                in case dxcore_query_adapter_info_helper env pLib hAdapter' DXCORE_QUERYREGISTRY
                                          (RegistryData v1)
                                          (of_nat (sizeof_dxcore_queryregistry_info + outputSizeInBytes)) w2 of
                                     Inl f \<Rightarrow> Inl f
                                   | Inr (rc2, d2, w3) \<Rightarrow>
                                       if rc2 \<noteq> 0
                                       then (case free pValue w3 of
                                               Inl f \<Rightarrow> Inl f
                                             | Inr w4 \<Rightarrow> Inr (-1, ppDriverStorePath, w4))
                                       else
                                         (let v2 = registry_of (outputSize + 3) v1 d2;
                                              pOutput = (Output v2)[outputSize := 0];
                                              w4 = w3\<lparr>heap := (heap w3)(pValue \<mapsto> RegInfo (v2\<lparr>Output := pOutput\<rparr>))\<rparr>
                                          in case calloc env (outputSize + 1) 1
                                                    (CharBuf (replicate (outputSize + 1) 0)) w4 of
                                               (path, w5) \<Rightarrow>
                                                 if path = NULL
                                                 then (case free pValue w5 of
                                                         Inl f \<Rightarrow> Inl f
                                                       | Inr w6 \<Rightarrow> Inr (-1, NULL, w6))
                                                 else
                                                   (let written = fst (wcstombs (wctomb_res env) pOutput outputSize);
                                                        buf = written @ replicate (outputSize + 1 - length written) 0;
                                                        w6 = w5\<lparr>heap := (heap w5)(path \<mapsto> CharBuf buf)\<rparr>
                                                    in case free pValue w6 of
                                                         Inl f \<Rightarrow> Inl f
                                                       | Inr w7 \<Rightarrow> Inr (0, path, w7)))))))"

section \<open>The registry\<close>

text \<open>
  The block of \<^verbatim>\<open>dxcore_add_adapter\<close> that adds the adapter to the tracking
  structure once the queries have succeeded.
\<close>

definition dxcore_add_adapter_track ::
  "env \<Rightarrow> ptr \<Rightarrow> dxcore_adapterInfo \<Rightarrow> uint \<Rightarrow> ptr \<Rightarrow> world \<Rightarrow> fault + world" where
  "dxcore_add_adapter_track env pCtx pAdapterInfo wddmVersion' driverStorePath w =
     (case ctxs w pCtx of
        None \<Rightarrow> Inl InvalidPointer
      | Some ctx \<Rightarrow>
          (case realloc env (adapterList ctx) (sizeof_dxcore_adapter * unat (adapterCount ctx + 1)) w of
             Inl f \<Rightarrow> Inl f
           | Inr (newList, w1) \<Rightarrow>
               if newList = NULL then free driverStorePath w1
               else
                 (case heap w1 newList of
                    Some (AdapterArr xs) \<Rightarrow>
                      if unat (adapterCount ctx) < length xs
                      then Inr (w1\<lparr>heap := (heap w1)(newList \<mapsto> AdapterArr
                                     (xs[unat (adapterCount ctx) :=
                                          (xs ! unat (adapterCount ctx))
                                            \<lparr>hAdapter := info_hAdapter pAdapterInfo,
                                             wddmVersion := wddmVersion',
                                             pDriverStorePath := driverStorePath\<rparr>])),
                                   ctxs := (ctxs w1)(pCtx \<mapsto>
                                     ctx\<lparr>adapterList := newList, adapterCount := adapterCount ctx + 1\<rparr>)\<rparr>)
                      else Inl OutOfBounds
                  | _ \<Rightarrow> Inl InvalidPointer)))"

definition dxcore_add_adapter ::
  "env \<Rightarrow> ptr \<Rightarrow> dxcore_lib \<Rightarrow> dxcore_adapterInfo \<Rightarrow> world \<Rightarrow> fault + world" where
  "dxcore_add_adapter env pCtx pLib pAdapterInfo w =
     (case dxcore_query_adapter_wddm_version env pLib (info_hAdapter pAdapterInfo) 0 w of
        Inl f \<Rightarrow> Inl f
      | Inr (rc, wddmVersion', w1) \<Rightarrow>
          if rc \<noteq> 0 then Inr w1
          else if wddmVersion' < 2700 then Inr w1
          else
            (case dxcore_query_adapter_driverstore env pLib (info_hAdapter pAdapterInfo) NULL w1 of
               Inl f \<Rightarrow> Inl f
             | Inr (rc2, driverStorePath, w2) \<Rightarrow>
                 if rc2 \<noteq> 0 then Inr w2
                 else dxcore_add_adapter_track env pCtx pAdapterInfo wddmVersion' driverStorePath w2))"

section \<open>Enumeration\<close>

text \<open>
  Reading \<^verbatim>\<open>params.pAdapters[adapterIndex]\<close>. After the second call the buffer
  holds what the platform wrote; an element the platform did not write is not there
  to read.
\<close>

definition read_adapterInfo :: "ptr \<Rightarrow> nat \<Rightarrow> world \<Rightarrow> fault + dxcore_adapterInfo" where
  "read_adapterInfo pAdapters adapterIndex w =
     (if pAdapters = NULL then Inl NullDeref
      else (case heap w pAdapters of
              Some (InfoArr xs) \<Rightarrow>
                if adapterIndex < length xs then Inr (xs ! adapterIndex) else Inl OutOfBounds
            | _ \<Rightarrow> Inl InvalidPointer))"

function dxcore_enum_adapters_loop ::
  "env \<Rightarrow> ptr \<Rightarrow> dxcore_lib \<Rightarrow> ptr \<Rightarrow> nat \<Rightarrow> nat \<Rightarrow> world \<Rightarrow> fault + world" where
  "dxcore_enum_adapters_loop env pCtx pLib pAdapters adapterIndex NumAdapters w =
     (if adapterIndex < NumAdapters
      then (case read_adapterInfo pAdapters adapterIndex w of
              Inl f \<Rightarrow> Inl f
            | Inr info \<Rightarrow>
                (case dxcore_add_adapter env pCtx pLib info w of
                   Inl f \<Rightarrow> Inl f
                 | Inr w1 \<Rightarrow>
                     dxcore_enum_adapters_loop env pCtx pLib pAdapters (Suc adapterIndex) NumAdapters w1))
      else Inr w)"
  by pat_completeness auto
termination
  by (relation "measure (\<lambda>(env, pCtx, pLib, pAdapters, adapterIndex, NumAdapters, w). NumAdapters - adapterIndex)")
     auto

declare dxcore_enum_adapters_loop.simps [simp del]

text \<open>One call through \<^verbatim>\<open>pLib->pDxcoreEnumAdapters2\<close>.\<close>

definition call_EnumAdapters2 ::
  "env \<Rightarrow> dxcore_lib \<Rightarrow> uint \<Rightarrow> ptr \<Rightarrow> world \<Rightarrow> fault + (int \<times> uint \<times> world)" where
  "call_EnumAdapters2 env pLib NumAdapters pAdapters w =
     (if pDxcoreEnumAdapters2 pLib = NULL then Inl NullDeref
      else (let w1 = log_event (Ev_EnumAdapters2 NumAdapters pAdapters) w
            in case EnumAdapters2_res env (trace w1) of
                 (rc, n, infos) \<Rightarrow>
                   Inr (rc, n,
                        if pAdapters = NULL then w1
                        else w1\<lparr>heap := (heap w1)(pAdapters \<mapsto> InfoArr infos)\<rparr>)))"

definition dxcore_enum_adapters :: "env \<Rightarrow> ptr \<Rightarrow> dxcore_lib \<Rightarrow> world \<Rightarrow> fault + world" where
  "dxcore_enum_adapters env pCtx pLib w =
     (case call_EnumAdapters2 env pLib 0 NULL w of
        Inl f \<Rightarrow> Inl f
      | Inr (rc, NumAdapters, w1) \<Rightarrow>
          if rc \<noteq> 0 then Inr w1
          else
            (case malloc env (sizeof_dxcore_adapterInfo * unat NumAdapters) (InfoArr []) w1 of
               (pAdapters, w2) \<Rightarrow>
                 (case call_EnumAdapters2 env pLib NumAdapters pAdapters w2 of
                    Inl f \<Rightarrow> Inl f
                  | Inr (rc2, NumAdapters2, w3) \<Rightarrow>
                      if rc2 \<noteq> 0 then free pAdapters w3
                      else
                        (case dxcore_enum_adapters_loop env pCtx pLib pAdapters 0 (unat NumAdapters2) w3 of
                           Inl f \<Rightarrow> Inl f
                         | Inr w4 \<Rightarrow> free pAdapters w4))))"

section \<open>Session lifecycle\<close>

text \<open>
  \<^verbatim>\<open>dxcore_deinit_adapter(&pCtx->adapterList[adapterIndex])\<close>: the address of the
  element is null only for element 0 of a null list.
\<close>

definition dxcore_deinit_adapter :: "ptr \<Rightarrow> nat \<Rightarrow> world \<Rightarrow> fault + world" where
  "dxcore_deinit_adapter adapterList' adapterIndex w =
     (if adapterList' = NULL \<and> adapterIndex = 0 then Inr w
      else if adapterList' = NULL then Inl NullDeref
      else (case heap w adapterList' of
              Some (AdapterArr xs) \<Rightarrow>
                if adapterIndex < length xs then free (pDriverStorePath (xs ! adapterIndex)) w
                else Inl OutOfBounds
            | _ \<Rightarrow> Inl InvalidPointer))"

function dxcore_deinit_context_loop :: "ptr \<Rightarrow> nat \<Rightarrow> nat \<Rightarrow> world \<Rightarrow> fault + world" where
  "dxcore_deinit_context_loop adapterList' adapterIndex count w =
     (if adapterIndex < count
      then (case dxcore_deinit_adapter adapterList' adapterIndex w of
              Inl f \<Rightarrow> Inl f
            | Inr w1 \<Rightarrow> dxcore_deinit_context_loop adapterList' (Suc adapterIndex) count w1)
      else Inr w)"
  by pat_completeness auto
termination
  by (relation "measure (\<lambda>(p, adapterIndex, count, w). count - adapterIndex)") auto

declare dxcore_deinit_context_loop.simps [simp del]

definition dxcore_deinit_context :: "ptr \<Rightarrow> world \<Rightarrow> fault + world" where
  "dxcore_deinit_context pCtx w =
     (if pCtx = NULL then Inr w
      else (case ctxs w pCtx of
              None \<Rightarrow> Inl InvalidPointer
            | Some ctx \<Rightarrow>
                (case dxcore_deinit_context_loop (adapterList ctx) 0 (unat (adapterCount ctx)) w of
                   Inl f \<Rightarrow> Inl f
                 | Inr w1 \<Rightarrow>
                     (case free (adapterList ctx) w1 of
                        Inl f \<Rightarrow> Inl f
                      | Inr w2 \<Rightarrow> Inr (w2\<lparr>ctxs := (ctxs w2)(pCtx \<mapsto> ctx\<lparr>initialized := 0\<rparr>)\<rparr>)))))"

text \<open>The code behind the label \<^verbatim>\<open>error\<close> of \<^verbatim>\<open>dxcore_init_context\<close>.\<close>

definition dxcore_init_context_error :: "ptr \<Rightarrow> dxcore_lib \<Rightarrow> world \<Rightarrow> fault + (int \<times> world)" where
  "dxcore_init_context_error pCtx lib w =
     (case dxcore_deinit_context pCtx w of
        Inl f \<Rightarrow> Inl f
      | Inr w1 \<Rightarrow>
          Inr (-1, if hDxcoreLib lib \<noteq> NULL then dlclose (hDxcoreLib lib) w1 else w1))"

definition dxcore_init_context :: "env \<Rightarrow> ptr \<Rightarrow> world \<Rightarrow> fault + (int \<times> world)" where
  "dxcore_init_context env pCtx w =
     (case (if pCtx = NULL then None else ctxs w pCtx) of
        None \<Rightarrow> (if pCtx = NULL then Inl NullDeref else Inl InvalidPointer)
      | Some ctx \<Rightarrow>
          (let lib0 = \<lparr>hDxcoreLib = NULL, pDxcoreEnumAdapters2 = NULL, pDxcoreQueryAdapterInfo = NULL\<rparr>;
               w0 = w\<lparr>ctxs := (ctxs w)(pCtx \<mapsto>
                        ctx\<lparr>initialized := 0, adapterCount := 0, adapterList := NULL\<rparr>)\<rparr>
           in case dlopen env ''libdxcore.so'' w0 of
                (h, w1) \<Rightarrow>
                  (let lib1 = lib0\<lparr>hDxcoreLib := h\<rparr>
                   in if h = NULL then dxcore_init_context_error pCtx lib1 w1
                      else
                        (case dlsym env h ''D3DKMTEnumAdapters2'' w1 of
                           (f1, w2) \<Rightarrow>
                             (let lib2 = lib1\<lparr>pDxcoreEnumAdapters2 := f1\<rparr>
                              in if f1 = NULL then dxcore_init_context_error pCtx lib2 w2
                                 else
                                   (case dlsym env h ''D3DKMTQueryAdapterInfo'' w2 of
                                      (f2, w3) \<Rightarrow>
                                        (let lib3 = lib2\<lparr>pDxcoreQueryAdapterInfo := f2\<rparr>
                                         in if f2 = NULL then dxcore_init_context_error pCtx lib3 w3
                                            else
                                              (case dxcore_enum_adapters env pCtx lib3 w3 of
                                                 Inl f \<Rightarrow> Inl f
                                               | Inr w4 \<Rightarrow>
                                                   (case ctxs w4 pCtx of
                                                      None \<Rightarrow> Inl InvalidPointer
                                                    | Some ctx4 \<Rightarrow>
                                                        Inr (0, dlclose h
                                                          (w4\<lparr>ctxs := (ctxs w4)(pCtx \<mapsto>
                                                                 ctx4\<lparr>initialized := 1\<rparr>)\<rparr>)))))))))))"

section \<open>The calls the queries make\<close>

text \<open>
  The argument structures that \<^verbatim>\<open>dxcore_query_adapter_info_helper\<close> builds for
  the version query, for the size probe of the driver store path and for the query that
  fills a buffer of \<open>N\<close> bytes.
\<close>

definition version_query :: "uint \<Rightarrow> dxcore_queryAdapterInfo" where
  "version_query h =
     \<lparr>query_hAdapter = h, query_Type = DXCORE_QUERYDRIVERVERSION,
      pPrivateDriverData = VersionData 0, PrivateDriverDataSize = of_nat sizeof_uint\<rparr>"

definition driverstore_probe_query :: "uint \<Rightarrow> dxcore_queryAdapterInfo" where
  "driverstore_probe_query h =
     \<lparr>query_hAdapter = h, query_Type = DXCORE_QUERYREGISTRY,
      pPrivateDriverData = RegistryData
        ((zero_queryregistry_info 2)\<lparr>QueryType := DXCORE_QUERYREGISTRY_DRIVERSTOREPATH\<rparr>),
      PrivateDriverDataSize = of_nat sizeof_dxcore_queryregistry_info\<rparr>"

definition driverstore_fill_query :: "uint \<Rightarrow> nat \<Rightarrow> dxcore_queryAdapterInfo" where
  "driverstore_fill_query h N =
     \<lparr>query_hAdapter = h, query_Type = DXCORE_QUERYREGISTRY,
      pPrivateDriverData = RegistryData
        ((zero_queryregistry_info (N div sizeof_wchar_t + 3))
           \<lparr>QueryType := DXCORE_QUERYREGISTRY_DRIVERSTOREPATH, OutputValueSize := of_nat N\<rparr>),
      PrivateDriverDataSize = of_nat (sizeof_dxcore_queryregistry_info + N)\<rparr>"

section \<open>A simulated platform\<close>

text \<open>
  A platform with one adapter of handle 7 that reports the driver model version \<open>ver\<close>
  and a driver store path of \<open>N\<close> bytes holding \<open>path\<close>, an allocator that
  never fails, and the conversion of the POSIX locale, which knows the ASCII characters
  only.
\<close>

definition wctomb_posix :: "wchar_t \<Rightarrow> cchar list option" where
  "wctomb_posix c = (if c < 0x80 then Some [ucast c] else None)"

definition zero_adapter :: dxcore_adapter where
  "zero_adapter = \<lparr>hAdapter = 0, wddmVersion = 0, pDriverStorePath = NULL, driverStoreComponentCount = 0,
     pDriverStoreComponents = replicate MAX_DXCORE_DRIVERSTORE_LIBRAIRIES NULL, pContext = NULL\<rparr>"

definition sim_info :: "uint \<Rightarrow> dxcore_adapterInfo" where
  "sim_info h = \<lparr>info_hAdapter = h, AdapterLuid = \<lparr>lowPart = 5, highPart = 0\<rparr>,
     NumOfSources = 1, bPresentMoveRegionsPreferred = 0\<rparr>"

definition sim_QueryAdapterInfo :: "uint \<Rightarrow> nat \<Rightarrow> wchar_t list \<Rightarrow> event list \<Rightarrow> int \<times> private_data" where
  "sim_QueryAdapterInfo ver N path t =
     (case t of
        Ev_QueryAdapterInfo q # _ \<Rightarrow>
          (case pPrivateDriverData q of
             VersionData _ \<Rightarrow> (0, VersionData ver)
           | RegistryData r \<Rightarrow> (0, RegistryData (r\<lparr>OutputValueSize := of_nat N, Output := path\<rparr>)))
      | _ \<Rightarrow> (-1, VersionData 0))"

definition sim_env :: "uint \<Rightarrow> nat \<Rightarrow> wchar_t list \<Rightarrow> env" where
  "sim_env ver N path =
     \<lparr>dlopen_res = (\<lambda>t. 100), dlsym_res = (\<lambda>t. 200), alloc_res = (\<lambda>t. True),
      junk_adapter = (\<lambda>t. zero_adapter), wctomb_res = wctomb_posix,
      EnumAdapters2_res = (\<lambda>t. (0, 1, [sim_info 7])),
      QueryAdapterInfo_res = sim_QueryAdapterInfo ver N path\<rparr>"

definition sim_lib :: dxcore_lib where
  "sim_lib = \<lparr>hDxcoreLib = 100, pDxcoreEnumAdapters2 = 200, pDxcoreQueryAdapterInfo = 200\<rparr>"

definition sim_world :: world where
  "sim_world = \<lparr>ctxs = [1000 \<mapsto> \<lparr>adapterCount = 9, adapterList = 77, initialized = 5\<rparr>],
     heap = Map.empty, brk = 0, trace = []\<rparr>"

text \<open>
  The same platform where \<^verbatim>\<open>realloc\<close> always fails, where \<^verbatim>\<open>malloc\<close> always
  fails, and where the library lacks the symbol \<^verbatim>\<open>D3DKMTQueryAdapterInfo\<close>; and a
  world whose session at address 1000 is empty.
\<close>

definition sim_env_no_realloc :: "uint \<Rightarrow> nat \<Rightarrow> wchar_t list \<Rightarrow> env" where
  "sim_env_no_realloc ver N path =
     (sim_env ver N path)\<lparr>alloc_res := (\<lambda>t. case t of Ev_realloc p n # _ \<Rightarrow> False | _ \<Rightarrow> True)\<rparr>"

definition sim_env_no_malloc :: "uint \<Rightarrow> nat \<Rightarrow> wchar_t list \<Rightarrow> env" where
  "sim_env_no_malloc ver N path =
     (sim_env ver N path)\<lparr>alloc_res := (\<lambda>t. case t of Ev_malloc n # _ \<Rightarrow> False | _ \<Rightarrow> True)\<rparr>"

definition sim_env_no_symbol :: "uint \<Rightarrow> nat \<Rightarrow> wchar_t list \<Rightarrow> env" where
  "sim_env_no_symbol ver N path =
     (sim_env ver N path)\<lparr>dlsym_res :=
        (\<lambda>t. case t of Ev_dlsym h name # _ \<Rightarrow> (if name = ''D3DKMTQueryAdapterInfo'' then NULL else 200)
                      | _ \<Rightarrow> NULL)\<rparr>"

definition sim_world0 :: world where
  "sim_world0 = \<lparr>ctxs = [1000 \<mapsto> \<lparr>adapterCount = 0, adapterList = NULL, initialized = 0\<rparr>],
     heap = Map.empty, brk = 0, trace = []\<rparr>"

text \<open>
  The world that \<^verbatim>\<open>dxcore_init_context\<close> leaves on the simulated platform when the
  adapter qualifies with version 2700 and the 13 character path, without its trace: the
  path string at address 3 and the list with its one adapter at address 4.
\<close>

definition sim_session :: world where
  "sim_session =
     \<lparr>ctxs = [1000 \<mapsto> \<lparr>adapterCount = 1, adapterList = 4, initialized = 1\<rparr>],
      heap = [3 \<mapsto> CharBuf [0x43, 0x3A, 0x5C, 0x64, 0x72, 0x69, 0x76, 0x65, 0x72, 0x73, 0x5C, 0x76, 0x31, 0],
              4 \<mapsto> AdapterArr [zero_adapter\<lparr>hAdapter := 7, wddmVersion := 2700, pDriverStorePath := 3\<rparr>]],
      brk = 4, trace = []\<rparr>"

definition sim_init_trace :: "event list" where
  "sim_init_trace =
     [Ev_dlclose 100, Ev_free 1, Ev_realloc NULL (sizeof_dxcore_adapter * 1), Ev_free 2, Ev_calloc 14 1,
      Ev_QueryAdapterInfo (driverstore_fill_query 7 52),
      Ev_calloc (sizeof_dxcore_queryregistry_info + 52 + sizeof_wchar_t) 1,
      Ev_QueryAdapterInfo (driverstore_probe_query 7),
      Ev_QueryAdapterInfo (version_query 7),
      Ev_EnumAdapters2 1 1, Ev_malloc (sizeof_dxcore_adapterInfo * 1), Ev_EnumAdapters2 0 NULL,
      Ev_dlsym 100 ''D3DKMTQueryAdapterInfo'', Ev_dlsym 100 ''D3DKMTEnumAdapters2'',
      Ev_dlopen ''libdxcore.so'']"



text \<open>
  The driver store path of the simulated platform: the 13 ASCII characters of a drive
  letter \<open>C\<close>, a colon, and the directories \<open>drivers\<close> and \<open>v1\<close>, each after a
  backslash (code 0x5C).
\<close>

definition sim_path :: "wchar_t list" where
  "sim_path = [0x43, 0x3A, 0x5C, 0x64, 0x72, 0x69, 0x76, 0x65, 0x72, 0x73, 0x5C, 0x76, 0x31]"

definition observe_path :: "fault + (int \<times> ptr \<times> world) \<Rightarrow> (int \<times> ptr \<times> block option) option" where
  "observe_path r = (case r of Inl f \<Rightarrow> None | Inr (rc, p, w) \<Rightarrow> Some (rc, p, heap w p))"

definition observe_status :: "fault + (int \<times> ptr \<times> world) \<Rightarrow> fault + (int \<times> ptr)" where
  "observe_status r = (case r of Inl f \<Rightarrow> Inl f | Inr (rc, p, w) \<Rightarrow> Inr (rc, p))"

section \<open>Reading the registry\<close>

text \<open>The adapters of a session: the first \<open>adapterCount\<close> elements of its list.\<close>

definition registry :: "world \<Rightarrow> ptr \<Rightarrow> dxcore_adapter list" where
  "registry w pCtx =
     (case ctxs w pCtx of
        None \<Rightarrow> []
      | Some ctx \<Rightarrow>
          if adapterList ctx = NULL then []
          else (case heap w (adapterList ctx) of
                  Some (AdapterArr xs) \<Rightarrow> take (unat (adapterCount ctx)) xs
                | _ \<Rightarrow> []))"

text \<open>
  The state of a session while \<^verbatim>\<open>dxcore_enum_adapters\<close> runs its loop over the
  candidate buffer \<open>P\<close>, which holds \<open>infos\<close>: the buffer is live, the list of the
  session was allocated after it and holds as many adapters as \<open>adapterCount\<close> says,
  each of driver model version 2700 or more.
\<close>

definition enum_inv :: "ptr \<Rightarrow> dxcore_adapterInfo list \<Rightarrow> world \<Rightarrow> ptr \<Rightarrow> bool" where
  "enum_inv P infos w pCtx =
     (case ctxs w pCtx of
        None \<Rightarrow> False
      | Some ctx \<Rightarrow>
          P \<le> brk w \<and> adapterList ctx \<le> brk w \<and>
          (P \<noteq> NULL \<longrightarrow> heap w P = Some (InfoArr infos)) \<and>
          (if adapterList ctx = NULL then adapterCount ctx = 0
           else P < adapterList ctx \<and>
                (case heap w (adapterList ctx) of
                   Some (AdapterArr xs) \<Rightarrow>
                     length xs = unat (adapterCount ctx) \<and> list_all (\<lambda>a. 2700 \<le> wddmVersion a) xs
                 | _ \<Rightarrow> False)))"

section \<open>Properties of the queries\<close>

lemma helper_eq:
  "pDxcoreQueryAdapterInfo pLib \<noteq> NULL \<Longrightarrow>
   dxcore_query_adapter_info_helper env pLib h ty d sz w =
     Inr (fst (QueryAdapterInfo_res env (Ev_QueryAdapterInfo
            \<lparr>query_hAdapter = h, query_Type = ty, pPrivateDriverData = d, PrivateDriverDataSize = sz\<rparr> # trace w)),
          snd (QueryAdapterInfo_res env (Ev_QueryAdapterInfo
            \<lparr>query_hAdapter = h, query_Type = ty, pPrivateDriverData = d, PrivateDriverDataSize = sz\<rparr> # trace w)),
          w\<lparr>trace := Ev_QueryAdapterInfo
            \<lparr>query_hAdapter = h, query_Type = ty, pPrivateDriverData = d, PrivateDriverDataSize = sz\<rparr> # trace w\<rparr>)"
  by (simp add: dxcore_query_adapter_info_helper_def log_event_def Let_def split: prod.splits)

lemma wddm_version_eq:
  "pDxcoreQueryAdapterInfo pLib \<noteq> NULL \<Longrightarrow>
   dxcore_query_adapter_wddm_version env pLib h 0 w =
     Inr (fst (QueryAdapterInfo_res env (Ev_QueryAdapterInfo (version_query h) # trace w)),
          version_of 0 (snd (QueryAdapterInfo_res env (Ev_QueryAdapterInfo (version_query h) # trace w))),
          w\<lparr>trace := Ev_QueryAdapterInfo (version_query h) # trace w\<rparr>)"
  by (simp add: dxcore_query_adapter_wddm_version_def helper_eq version_query_def)

lemma driverstore_oversized:
  assumes lib: "pDxcoreQueryAdapterInfo pLib \<noteq> NULL"
    and probe: "QueryAdapterInfo_res env (Ev_QueryAdapterInfo (driverstore_probe_query h) # trace w) = (0, RegistryData r)"
    and big: "DXCORE_MAX_PATH * sizeof_wchar_t < unat (OutputValueSize r)"
  shows "dxcore_query_adapter_driverstore env pLib h pp w =
           Inr (-1, pp, w\<lparr>trace := Ev_QueryAdapterInfo (driverstore_probe_query h) # trace w\<rparr>)"
  using big
  by (simp add: dxcore_query_adapter_driverstore_def helper_eq [OF lib] Let_def
      probe [unfolded driverstore_probe_query_def] driverstore_probe_query_def registry_of_def)

lemma max_path_bytes: "DXCORE_MAX_PATH * sizeof_wchar_t = 1040"
  by (simp add: DXCORE_MAX_PATH_def sizeof_wchar_t_def)

lemma wcstombs_length: "length (fst (wcstombs conv ws n)) \<le> n"
proof (induction ws arbitrary: n)
  case Nil
  then show ?case by simp
next
  case (Cons c cs)
  show ?case
  proof (cases "conv c")
    case None
    then show ?thesis by simp
  next
    case (Some bs)
    from Cons.IH [of "n - length bs"] Some show ?thesis
      by (auto split: prod.splits)
  qed
qed

lemma wcstombs_single_bytes:
  assumes "\<forall>c\<in>set cs. c \<noteq> 0 \<and> (\<exists>b. conv c = Some [b])" and "length cs \<le> n"
  shows "fst (wcstombs conv (cs @ 0 # rest) n) =
           map (\<lambda>c. hd (the (conv c))) cs @ (if length cs < n then [0] else [])"
  using assms
proof (induction cs arbitrary: n)
  case Nil
  then show ?case by simp
next
  case (Cons c cs)
  from Cons.prems obtain b where b: "conv c = Some [b]" and c0: "c \<noteq> 0" by auto
  from Cons.prems have n: "length cs \<le> n - 1" and n0: "0 < n" by auto
  from Cons.prems have rest: "\<forall>c\<in>set cs. c \<noteq> 0 \<and> (\<exists>b. conv c = Some [b])" by simp
  from Cons.IH [OF rest n] b c0 n0 show ?case
    by (auto split: prod.splits)
qed

lemma driverstore_success:
  assumes lib: "pDxcoreQueryAdapterInfo pLib \<noteq> NULL"
    and t1: "t1 = Ev_QueryAdapterInfo (driverstore_probe_query h) # trace w"
    and probe: "QueryAdapterInfo_res env t1 = (0, RegistryData r)"
    and N: "N = unat (OutputValueSize r)"
    and small: "N \<le> DXCORE_MAX_PATH * sizeof_wchar_t"
    and t2: "t2 = Ev_calloc (sizeof_dxcore_queryregistry_info + N + sizeof_wchar_t) 1 # t1"
    and a1: "alloc_res env t2"
    and t3: "t3 = Ev_QueryAdapterInfo (driverstore_fill_query h N) # t2"
    and fill: "QueryAdapterInfo_res env t3 = (0, RegistryData r2)"
    and t4: "t4 = Ev_calloc (N div sizeof_wchar_t + 1) 1 # t3"
    and a2: "alloc_res env t4"
    and wide: "wide = (take (N div sizeof_wchar_t + 3) (Output r2 @ replicate (N div sizeof_wchar_t + 3) 0))
                        [N div sizeof_wchar_t := 0]"
    and written: "written = fst (wcstombs (wctomb_res env) wide (N div sizeof_wchar_t))"
  shows "dxcore_query_adapter_driverstore env pLib h pp w =
           Inr (0, Suc (Suc (brk w)),
                w\<lparr>heap := (heap w)(Suc (brk w) := None,
                               Suc (Suc (brk w)) \<mapsto> CharBuf (written @ replicate (N div sizeof_wchar_t + 1 - length written) 0)),
                  brk := Suc (Suc (brk w)),
                  trace := Ev_free (Suc (brk w)) # t4\<rparr>)"
proof -
  have p: "QueryAdapterInfo_res env (Ev_QueryAdapterInfo (driverstore_probe_query h) # trace w) = (0, RegistryData r)"
    using probe t1 by simp
  have f: "QueryAdapterInfo_res env (Ev_QueryAdapterInfo (driverstore_fill_query h N) #
             Ev_calloc (sizeof_dxcore_queryregistry_info + N + sizeof_wchar_t) 1 #
             Ev_QueryAdapterInfo (driverstore_probe_query h) # trace w) = (0, RegistryData r2)"
    using fill t1 t2 t3 by simp
  have b1: "alloc_res env (Ev_calloc (sizeof_dxcore_queryregistry_info + N + sizeof_wchar_t) 1 #
             Ev_QueryAdapterInfo (driverstore_probe_query h) # trace w)"
    using a1 t1 t2 by simp
  have b2: "alloc_res env (Ev_calloc (N div sizeof_wchar_t + 1) 1 # Ev_QueryAdapterInfo (driverstore_fill_query h N) #
             Ev_calloc (sizeof_dxcore_queryregistry_info + N + sizeof_wchar_t) 1 #
             Ev_QueryAdapterInfo (driverstore_probe_query h) # trace w)"
    using a2 t1 t2 t3 t4 by simp
  show ?thesis
    using small N b1 b2 p f
    apply (simp add: dxcore_query_adapter_driverstore_def helper_eq [OF lib] Let_def
      driverstore_probe_query_def driverstore_fill_query_def registry_of_def
      calloc_def alloc_def log_event_def free_def t1 t2 t3 t4 wide written)
    apply (simp add: fun_upd_twist)
    done
qed

lemma helper_wctomb [simp]:
  "dxcore_query_adapter_info_helper (env\<lparr>wctomb_res := f\<rparr>) = dxcore_query_adapter_info_helper env"
  by (intro ext) (simp add: dxcore_query_adapter_info_helper_def)

lemma calloc_wctomb [simp]: "calloc (env\<lparr>wctomb_res := f\<rparr>) = calloc env"
  by (intro ext) (simp add: calloc_def alloc_def)

lemma status_ignores_conversion:
  "observe_status (dxcore_query_adapter_driverstore (env\<lparr>wctomb_res := f\<rparr>) pLib h pp w) =
   observe_status (dxcore_query_adapter_driverstore env pLib h pp w)"
  by (simp add: dxcore_query_adapter_driverstore_def observe_status_def Let_def free_def log_event_def
      split: sum.splits prod.splits)

lemma helper_frame:
  "dxcore_query_adapter_info_helper env pLib h ty d sz w = Inr (rc, d', w1) \<Longrightarrow>
   heap w1 = heap w \<and> brk w1 = brk w \<and> ctxs w1 = ctxs w"
  by (auto simp: dxcore_query_adapter_info_helper_def log_event_def Let_def split: if_splits prod.splits)

lemma wcstombs_padded:
  "last (fst (wcstombs conv ws n) @ replicate (Suc n - length (fst (wcstombs conv ws n))) 0) = 0"
  "length (fst (wcstombs conv ws n) @ replicate (Suc n - length (fst (wcstombs conv ws n))) 0) = Suc n"
proof -
  have "0 < Suc n - length (fst (wcstombs conv ws n))"
    using wcstombs_length [of conv ws n] by simp
  then obtain k where k: "Suc n - length (fst (wcstombs conv ws n)) = Suc k"
    by (cases "Suc n - length (fst (wcstombs conv ws n))") auto
  show "last (fst (wcstombs conv ws n) @ replicate (Suc n - length (fst (wcstombs conv ws n))) 0) = 0"
    by (simp add: k)
  show "length (fst (wcstombs conv ws n) @ replicate (Suc n - length (fst (wcstombs conv ws n))) 0) = Suc n"
    using wcstombs_length [of conv ws n] by simp
qed

lemma success_null_terminated:
  assumes "dxcore_query_adapter_driverstore env pLib h pp w = Inr (0, path, w')"
  shows "path \<noteq> NULL \<and> (\<exists>buf. heap w' path = Some (CharBuf buf) \<and> buf \<noteq> [] \<and> last buf = 0)"
  using assms
  apply (simp add: dxcore_query_adapter_driverstore_def Let_def free_def log_event_def calloc_def alloc_def
      split: sum.splits prod.splits if_splits)
  apply (auto dest!: helper_frame simp: wcstombs_padded simp del: last_append)
  done

lemma forced_terminator:
  "\<exists>rest. A @ replicate k 0 @ (0::wchar_t) # R = takeWhile (\<lambda>c. c \<noteq> 0) A @ 0 # rest"
proof (induction A)
  case Nil
  show ?case by (cases k) auto
next
  case (Cons a A)
  then show ?case by (cases "a = 0") auto
qed

lemma wide_split:
  fixes ws :: "wchar_t list"
  shows "\<exists>rest. (take (n + 3) (ws @ replicate (n + 3) 0))[n := 0] =
           takeWhile (\<lambda>c. c \<noteq> 0) (take n ws) @ 0 # rest"
proof -
  let ?L = "take (n + 3) (ws @ replicate (n + 3) 0)"
  have len: "n < length ?L" by simp
  have "?L[n := 0] = take n ?L @ 0 # drop (Suc n) ?L"
    using len by (rule upd_conv_take_nth_drop)
  moreover have "take n ?L = take n ws @ replicate (n - length ws) 0"
    by (simp add: min_def)
  ultimately have "?L[n := 0] = take n ws @ replicate (n - length ws) 0 @ 0 # drop (Suc n) ?L"
    by simp
  with forced_terminator [of "take n ws" "n - length ws" "drop (Suc n) ?L"] show ?thesis
    by simp
qed

lemma narrow_of_wide:
  assumes cs: "cs = takeWhile (\<lambda>c. c \<noteq> 0) (take n ws)"
    and conv: "\<forall>c\<in>set cs. \<exists>b. conv c = Some [b]"
    and written: "written = fst (wcstombs conv ((take (n + 3) (ws @ replicate (n + 3) 0))[n := 0]) n)"
  shows "written @ replicate (n + 1 - length written) 0 =
           map (\<lambda>c. hd (the (conv c))) cs @ replicate (n + 1 - length cs) 0"
proof -
  obtain rest where r: "(take (n + 3) (ws @ replicate (n + 3) 0))[n := 0] = cs @ 0 # rest"
    using wide_split [of n ws] cs by auto
  have len: "length cs \<le> n"
  proof -
    have "length cs \<le> length (take n ws)" unfolding cs by (rule length_takeWhile_le)
    then show ?thesis by simp
  qed
  have nz: "\<forall>c\<in>set cs. c \<noteq> 0 \<and> (\<exists>b. conv c = Some [b])"
    using conv cs by (auto dest: set_takeWhileD)
  have w: "written = map (\<lambda>c. hd (the (conv c))) cs @ (if length cs < n then [0] else [])"
    unfolding written r by (rule wcstombs_single_bytes [OF nz len])
  show ?thesis
  proof (cases "length cs < n")
    case True
    then have "n + 1 - length cs = Suc (n - length cs)" by simp
    with True w show ?thesis by simp
  next
    case False
    with len have "length cs = n" by simp
    with w show ?thesis by simp
  qed
qed

lemma driverstore_frame:
  assumes "dxcore_query_adapter_driverstore env pLib h pp w = Inr (rc, p, w')"
  shows "ctxs w' = ctxs w \<and> brk w \<le> brk w' \<and> (\<forall>a. a \<le> brk w \<longrightarrow> heap w' a = heap w a)
         \<and> (rc = 0 \<longrightarrow> brk w < p \<and> p \<le> brk w' \<and> heap w' p \<noteq> None)"
  using assms
  apply (simp add: dxcore_query_adapter_driverstore_def Let_def free_def log_event_def calloc_def alloc_def
      split: sum.splits prod.splits if_splits)
  apply (auto dest!: helper_frame)
  done

lemma wddm_version_frame:
  assumes "dxcore_query_adapter_wddm_version env pLib h v0 w = Inr (rc, v, w')"
  shows "ctxs w' = ctxs w \<and> brk w' = brk w \<and> heap w' = heap w"
  using assms
  by (auto simp: dxcore_query_adapter_wddm_version_def split: sum.splits dest!: helper_frame)


section \<open>Properties of the registry\<close>

lemma realloc_size: "(sizeof_dxcore_adapter * n) div sizeof_dxcore_adapter = n"
  by (simp add: sizeof_dxcore_adapter_def)

lemma unat_plus_one: "(c :: uint) + 1 \<noteq> 0 \<Longrightarrow> unat (c + 1) = Suc (unat c)"
  using unatSuc [of c] by (simp add: add.commute)

lemma grow_by_one:
  assumes len: "length old = unat (c :: uint)" and nz: "c + 1 \<noteq> 0"
  shows "(take (unat (c + 1)) old @ replicate (unat (c + 1) - length old) j)[unat c := e] = old @ [e]"
    and "unat c < length (take (unat (c + 1)) old @ replicate (unat (c + 1) - length old) j)"
    and "(take (unat (c + 1)) old @ replicate (unat (c + 1) - length old) j) ! unat c = j"
proof -
  have u: "unat (c + 1) = Suc (length old)" using nz len by (simp add: unat_plus_one)
  show "(take (unat (c + 1)) old @ replicate (unat (c + 1) - length old) j)[unat c := e] = old @ [e]"
    unfolding u len [symmetric] by simp
  show "unat c < length (take (unat (c + 1)) old @ replicate (unat (c + 1) - length old) j)"
    unfolding u len [symmetric] by simp
  show "(take (unat (c + 1)) old @ replicate (unat (c + 1) - length old) j) ! unat c = j"
    unfolding u len [symmetric] by simp
qed

lemma realloc_eq:
  assumes old: "old = (if p = NULL then [] else xs)"
    and live: "p \<noteq> NULL \<longrightarrow> heap w p = Some (AdapterArr xs)"
    and t: "t = Ev_realloc p sz # trace w"
    and n: "n = sz div sizeof_dxcore_adapter"
  shows "realloc env p sz w =
           (if \<not> alloc_res env t then Inr (NULL, w\<lparr>trace := t\<rparr>)
            else Inr (Suc (brk w),
                      w\<lparr>heap := (if p = NULL then heap w else (heap w)(p := None))
                                  (Suc (brk w) \<mapsto> AdapterArr (take n old @ replicate (n - length old) (junk_adapter env t))),
                        brk := Suc (brk w), trace := t\<rparr>))"
  using old live
  by (simp add: realloc_def log_event_def Let_def t n)

lemma track_cases:
  assumes ctx: "ctxs w pCtx = Some ctx"
    and old: "old = (if adapterList ctx = NULL then [] else xs)"
    and live: "adapterList ctx \<noteq> NULL \<longrightarrow> heap w (adapterList ctx) = Some (AdapterArr xs)"
    and len: "length old = unat (adapterCount ctx)"
    and nz: "adapterCount ctx + 1 \<noteq> 0"
    and t: "t = Ev_realloc (adapterList ctx) (sizeof_dxcore_adapter * unat (adapterCount ctx + 1)) # trace w"
  shows "dxcore_add_adapter_track env pCtx c v path w =
           (if \<not> alloc_res env t then free path (w\<lparr>trace := t\<rparr>)
            else Inr (w\<lparr>heap := (if adapterList ctx = NULL then heap w else (heap w)(adapterList ctx := None))
                              (Suc (brk w) \<mapsto> AdapterArr (old @
                                 [(junk_adapter env t)\<lparr>hAdapter := info_hAdapter c, wddmVersion := v,
                                                       pDriverStorePath := path\<rparr>])),
                           brk := Suc (brk w),
                           ctxs := (ctxs w)(pCtx \<mapsto> ctx\<lparr>adapterList := Suc (brk w),
                                                           adapterCount := adapterCount ctx + 1\<rparr>),
                           trace := t\<rparr>))"
proof (cases "alloc_res env t")
  case False
  then show ?thesis
    by (simp add: dxcore_add_adapter_track_def ctx realloc_eq [OF old live t refl] realloc_size)
next
  case True
  let ?g = "take (unat (adapterCount ctx + 1)) old @
            replicate (unat (adapterCount ctx + 1) - length old) (junk_adapter env t)"
  note g = grow_by_one [OF len nz, of "junk_adapter env t"]
  show ?thesis
    using True g(2)
    by (simp add: dxcore_add_adapter_track_def ctx realloc_eq [OF old live t refl] realloc_size g(1) g(3))
qed

lemma track_overflow:
  assumes ctx: "ctxs w pCtx = Some ctx"
    and live: "adapterList ctx \<noteq> NULL \<longrightarrow> heap w (adapterList ctx) = Some (AdapterArr xs)"
    and z: "adapterCount ctx + 1 = 0"
    and t: "t = Ev_realloc (adapterList ctx) (sizeof_dxcore_adapter * unat (adapterCount ctx + 1)) # trace w"
  shows "dxcore_add_adapter_track env pCtx c v path w =
           (if \<not> alloc_res env t then free path (w\<lparr>trace := t\<rparr>) else Inl OutOfBounds)"
proof -
  have u: "unat (adapterCount ctx + 1) = 0" using z by simp
  show ?thesis
    by (simp add: dxcore_add_adapter_track_def ctx realloc_eq [OF refl live _ refl] t u)
qed

lemma free_live:
  "p \<noteq> NULL \<Longrightarrow> heap w p \<noteq> None \<Longrightarrow>
   free p w = Inr (w\<lparr>heap := (heap w)(p := None), trace := Ev_free p # trace w\<rparr>)"
  by (auto simp: free_def log_event_def Let_def)

lemma free_null: "free NULL w = Inr (w\<lparr>trace := Ev_free NULL # trace w\<rparr>)"
  by (simp add: free_def log_event_def Let_def)

lemma add_adapter_below_gate:
  assumes lib: "pDxcoreQueryAdapterInfo pLib \<noteq> NULL"
    and t0: "t0 = Ev_QueryAdapterInfo (version_query (info_hAdapter c)) # trace w"
    and ver: "QueryAdapterInfo_res env t0 = (rc, VersionData v)"
    and skip: "rc \<noteq> 0 \<or> v < 2700"
  shows "dxcore_add_adapter env pCtx pLib c w = Inr (w\<lparr>trace := t0\<rparr>)"
  using ver skip t0
  by (auto simp: dxcore_add_adapter_def wddm_version_eq [OF lib] version_of_def)

lemma add_adapter_qualified:
  assumes lib: "pDxcoreQueryAdapterInfo pLib \<noteq> NULL"
    and ctx: "ctxs w pCtx = Some ctx"
    and wf: "adapterList ctx \<le> brk w"
    and old: "old = (if adapterList ctx = NULL then [] else xs)"
    and live: "adapterList ctx \<noteq> NULL \<longrightarrow> heap w (adapterList ctx) = Some (AdapterArr xs)"
    and len: "length old = unat (adapterCount ctx)"
    and nz: "adapterCount ctx + 1 \<noteq> 0"
    and t0: "t0 = Ev_QueryAdapterInfo (version_query (info_hAdapter c)) # trace w"
    and ver: "QueryAdapterInfo_res env t0 = (0, VersionData v)"
    and gate: "2700 \<le> v"
    and path: "dxcore_query_adapter_driverstore env pLib (info_hAdapter c) NULL (w\<lparr>trace := t0\<rparr>) = Inr (0, path, w2)"
    and t5: "t5 = Ev_realloc (adapterList ctx) (sizeof_dxcore_adapter * unat (adapterCount ctx + 1)) # trace w2"
  shows "dxcore_add_adapter env pCtx pLib c w =
           (if \<not> alloc_res env t5
            then Inr (w2\<lparr>heap := (heap w2)(path := None), trace := Ev_free path # t5\<rparr>)
            else Inr (w2\<lparr>heap := (if adapterList ctx = NULL then heap w2 else (heap w2)(adapterList ctx := None))
                              (Suc (brk w2) \<mapsto> AdapterArr (old @
                                 [(junk_adapter env t5)\<lparr>hAdapter := info_hAdapter c, wddmVersion := v,
                                                        pDriverStorePath := path\<rparr>])),
                           brk := Suc (brk w2),
                           ctxs := (ctxs w)(pCtx \<mapsto> ctx\<lparr>adapterList := Suc (brk w2),
                                                           adapterCount := adapterCount ctx + 1\<rparr>),
                           trace := t5\<rparr>))"
proof -
  have v: "dxcore_query_adapter_wddm_version env pLib (info_hAdapter c) 0 w = Inr (0, v, w\<lparr>trace := t0\<rparr>)"
    using ver t0 by (simp add: wddm_version_eq [OF lib] version_of_def)
  from driverstore_frame [OF path]
  have f: "ctxs w2 = ctxs w" "\<forall>a. a \<le> brk w \<longrightarrow> heap w2 a = heap w a" "heap w2 path \<noteq> None"
    "path \<noteq> NULL"
    by auto
  have ctx2: "ctxs w2 pCtx = Some ctx" using f ctx by simp
  have live2: "adapterList ctx \<noteq> NULL \<longrightarrow> heap w2 (adapterList ctx) = Some (AdapterArr xs)"
    using live wf f(2) by simp
  have fr: "free path (w2\<lparr>trace := t5\<rparr>) = Inr (w2\<lparr>heap := (heap w2)(path := None), trace := Ev_free path # t5\<rparr>)"
    using f(3,4) by (simp add: free_live)
  have "\<not> v < 2700" using gate by simp
  then show ?thesis
    by (simp add: dxcore_add_adapter_def v path track_cases [OF ctx2 old live2 len nz t5] fr f(1))
qed

lemma driverstore_total:
  assumes lib: "pDxcoreQueryAdapterInfo pLib \<noteq> NULL"
  shows "\<exists>rc p w'. dxcore_query_adapter_driverstore env pLib h pp w = Inr (rc, p, w')"
  by (simp add: dxcore_query_adapter_driverstore_def helper_eq [OF lib] Let_def free_def log_event_def
      calloc_def alloc_def)

lemma enum_inv_frame:
  assumes inv: "enum_inv P infos w pCtx"
    and c: "ctxs w' = ctxs w" and b: "brk w \<le> brk w'"
    and h: "\<forall>a. a \<le> brk w \<longrightarrow> heap w' a = heap w a"
  shows "enum_inv P infos w' pCtx"
  using inv b h unfolding enum_inv_def c
  by (auto split: option.splits block.splits if_splits)

lemma track_inv:
  assumes inv: "enum_inv P infos w pCtx"
    and gate: "2700 \<le> v"
    and path: "path \<noteq> NULL" "heap w path \<noteq> None" "path \<noteq> P"
      "\<forall>ctx. ctxs w pCtx = Some ctx \<longrightarrow> path \<noteq> adapterList ctx"
    and r: "dxcore_add_adapter_track env pCtx c v path w = Inr w'"
  shows "enum_inv P infos w' pCtx"
proof -
  from inv obtain ctx where ctx: "ctxs w pCtx = Some ctx"
    by (auto simp: enum_inv_def split: option.splits)
  from inv ctx obtain xs where
    live: "adapterList ctx \<noteq> NULL \<longrightarrow> heap w (adapterList ctx) = Some (AdapterArr xs)"
    and len: "length (if adapterList ctx = NULL then [] else xs) = unat (adapterCount ctx)"
    and ge: "list_all (\<lambda>a. 2700 \<le> wddmVersion a) (if adapterList ctx = NULL then [] else xs)"
    and P: "P \<le> brk w" "adapterList ctx \<le> brk w" "P \<noteq> NULL \<longrightarrow> heap w P = Some (InfoArr infos)"
      "adapterList ctx \<noteq> NULL \<longrightarrow> P < adapterList ctx"
    by (auto simp: enum_inv_def split: option.splits block.splits if_splits)
  define t where "t = Ev_realloc (adapterList ctx) (sizeof_dxcore_adapter * unat (adapterCount ctx + 1)) # trace w"
  show ?thesis
  proof (cases "alloc_res env t")
    case False
    have "dxcore_add_adapter_track env pCtx c v path w = free path (w\<lparr>trace := t\<rparr>)"
    proof (cases "adapterCount ctx + 1 = 0")
      case True
      from track_overflow [OF ctx live True t_def] False show ?thesis by simp
    next
      case nz: False
      from track_cases [OF ctx refl live len nz t_def] False show ?thesis by simp
    qed
    with r path(1,2) have w': "w' = w\<lparr>heap := (heap w)(path := None), trace := Ev_free path # t\<rparr>"
      by (simp add: free_live)
    show ?thesis
      using inv path(3,4) ctx unfolding w' enum_inv_def
      by (auto split: option.splits block.splits if_splits)
  next
    case True
    show ?thesis
    proof (cases "adapterCount ctx + 1 = 0")
      case z: True
      from track_overflow [OF ctx live z t_def] True r show ?thesis by simp
    next
      case nz: False
      from track_cases [OF ctx refl live len nz t_def] True r
      have w': "w' = w\<lparr>heap := (if adapterList ctx = NULL then heap w else (heap w)(adapterList ctx := None))
                              (Suc (brk w) \<mapsto> AdapterArr ((if adapterList ctx = NULL then [] else xs) @
                                 [(junk_adapter env t)\<lparr>hAdapter := info_hAdapter c, wddmVersion := v,
                                                       pDriverStorePath := path\<rparr>])),
                           brk := Suc (brk w),
                           ctxs := (ctxs w)(pCtx \<mapsto> ctx\<lparr>adapterList := Suc (brk w),
                                                           adapterCount := adapterCount ctx + 1\<rparr>),
                           trace := t\<rparr>"
        by simp
      have u: "unat (adapterCount ctx + 1) = Suc (unat (adapterCount ctx))"
        using nz by (rule unat_plus_one)
      show ?thesis
        using P len ge gate u unfolding w' enum_inv_def
        by (auto split: if_splits)
    qed
  qed
qed

lemma add_adapter_inv:
  assumes inv: "enum_inv P infos w pCtx"
    and r: "dxcore_add_adapter env pCtx pLib c w = Inr w'"
  shows "enum_inv P infos w' pCtx"
proof (cases "dxcore_query_adapter_wddm_version env pLib (info_hAdapter c) 0 w")
  case (Inl f)
  with r show ?thesis by (simp add: dxcore_add_adapter_def)
next
  case (Inr x)
  then obtain rc v w1 where
    v: "dxcore_query_adapter_wddm_version env pLib (info_hAdapter c) 0 w = Inr (rc, v, w1)"
    by (cases x) auto
  from wddm_version_frame [OF v] have f1: "ctxs w1 = ctxs w" "brk w1 = brk w" "heap w1 = heap w"
    by simp_all
  have inv1: "enum_inv P infos w1 pCtx"
    by (rule enum_inv_frame [OF inv]) (simp_all add: f1)
  show ?thesis
  proof (cases "rc \<noteq> 0 \<or> v < 2700")
    case True
    with r v have "w' = w1" by (auto simp: dxcore_add_adapter_def split: if_splits)
    with inv1 show ?thesis by simp
  next
    case False
    then have rc: "rc = 0" and gate: "2700 \<le> v" and ng: "\<not> v < 2700" by auto
    show ?thesis
    proof (cases "dxcore_query_adapter_driverstore env pLib (info_hAdapter c) NULL w1")
      case (Inl f)
      with r v rc ng show ?thesis by (simp add: dxcore_add_adapter_def)
    next
      case (Inr y)
      then obtain rc2 p w2 where
        d: "dxcore_query_adapter_driverstore env pLib (info_hAdapter c) NULL w1 = Inr (rc2, p, w2)"
        by (cases y) auto
      note f2 = driverstore_frame [OF d]
      have inv2: "enum_inv P infos w2 pCtx"
        by (rule enum_inv_frame [OF inv1]) (use f2 in simp_all)
      show ?thesis
      proof (cases "rc2 = 0")
        case False
        with r v rc ng d have "w' = w2" by (simp add: dxcore_add_adapter_def)
        with inv2 show ?thesis by simp
      next
        case True
        with r v rc ng d have t: "dxcore_add_adapter_track env pCtx c v p w2 = Inr w'"
          by (simp add: dxcore_add_adapter_def)
        from f2 True have p: "brk w1 < p" "heap w2 p \<noteq> None" by simp_all
        from inv1 have b: "P \<le> brk w1" "\<forall>ctx. ctxs w1 pCtx = Some ctx \<longrightarrow> adapterList ctx \<le> brk w1"
          by (auto simp: enum_inv_def split: option.splits)
        show ?thesis
          by (rule track_inv [OF inv2 gate _ p(2) _ _ t]) (use p b f2 in auto)
      qed
    qed
  qed
qed

lemma enum_loop_inv:
  assumes "enum_inv P infos w pCtx"
    and "dxcore_enum_adapters_loop env pCtx pLib buf i n w = Inr w'"
  shows "enum_inv P infos w' pCtx"
  using assms
proof (induction env pCtx pLib buf i n w rule: dxcore_enum_adapters_loop.induct)
  case (1 env pCtx pLib buf i n w)
  show ?case
  proof (cases "i < n")
    case False
    with "1.prems" show ?thesis by (simp add: dxcore_enum_adapters_loop.simps [of _ _ _ _ i n])
  next
    case True
    from True "1.prems"(2) [unfolded dxcore_enum_adapters_loop.simps [of _ _ _ _ i n]] obtain info w1 where
      rd: "read_adapterInfo buf i w = Inr info"
      and ad: "dxcore_add_adapter env pCtx pLib info w = Inr w1"
      and rest: "dxcore_enum_adapters_loop env pCtx pLib buf (Suc i) n w1 = Inr w'"
      by (auto split: sum.splits)
    from add_adapter_inv [OF "1.prems"(1) ad] have "enum_inv P infos w1 pCtx" .
    from "1.IH" [OF True rd ad this rest] show ?thesis .
  qed
qed

lemma enum_inv_registry:
  assumes "enum_inv P infos w pCtx"
  shows "list_all (\<lambda>a. 2700 \<le> wddmVersion a) (registry w pCtx)"
  using assms
  by (auto simp: enum_inv_def registry_def split: option.splits block.splits if_splits)

section \<open>Properties of enumeration and of the session lifecycle\<close>

lemma registry_fresh:
  "ctxs w pCtx = Some ctx \<Longrightarrow> adapterList ctx = NULL \<Longrightarrow> registry w pCtx = []"
  by (simp add: registry_def)

lemma call_EnumAdapters2_frame:
  assumes "call_EnumAdapters2 env pLib N P w = Inr (rc, n, w')"
  shows "ctxs w' = ctxs w \<and> brk w' = brk w \<and>
         (\<exists>infos. heap w' = (if P = NULL then heap w else (heap w)(P \<mapsto> InfoArr infos)))"
  using assms
  by (auto simp: call_EnumAdapters2_def log_event_def Let_def split: if_splits prod.splits)

lemma malloc_frame:
  assumes "malloc env sz b w = (P, w')"
  shows "ctxs w' = ctxs w \<and> brk w \<le> brk w' \<and> P \<le> brk w' \<and> (\<forall>a. a \<le> brk w \<longrightarrow> heap w' a = heap w a)
         \<and> (P \<noteq> NULL \<longrightarrow> brk w < P)"
  using assms
  by (auto simp: malloc_def alloc_def log_event_def Let_def split: if_splits)

lemma free_frame:
  assumes "free p w = Inr w'"
  shows "ctxs w' = ctxs w \<and> brk w' = brk w \<and> heap w' = (if p = NULL then heap w else (heap w)(p := None))"
  using assms
  by (auto simp: free_def log_event_def Let_def split: if_splits)

lemma free_registry:
  assumes inv: "enum_inv P infos w pCtx" and f: "free P w = Inr w'"
  shows "registry w' pCtx = registry w pCtx"
  using inv free_frame [OF f]
  by (auto simp: enum_inv_def registry_def split: option.splits block.splits if_splits)

lemma enum_adapters_registry:
  assumes ctx: "ctxs w pCtx = Some ctx" and fresh: "adapterList ctx = NULL" "adapterCount ctx = 0"
    and r: "dxcore_enum_adapters env pCtx pLib w = Inr w'"
  shows "list_all (\<lambda>a. 2700 \<le> wddmVersion a) (registry w' pCtx) \<and> (\<exists>ctx'. ctxs w' pCtx = Some ctx')"
proof -
  from r obtain rc N w1 where
    c1: "call_EnumAdapters2 env pLib 0 NULL w = Inr (rc, N, w1)"
    by (auto simp: dxcore_enum_adapters_def split: sum.splits)
  from call_EnumAdapters2_frame [OF c1] have f1: "ctxs w1 = ctxs w" "brk w1 = brk w" "heap w1 = heap w"
    by auto
  show ?thesis
  proof (cases "rc = 0")
    case False
    with r c1 have "w' = w1" by (simp add: dxcore_enum_adapters_def)
    with f1 ctx fresh show ?thesis by (simp add: registry_fresh)
  next
    case True
    obtain P w2 where m: "malloc env (sizeof_dxcore_adapterInfo * unat N) (InfoArr []) w1 = (P, w2)"
      by (cases "malloc env (sizeof_dxcore_adapterInfo * unat N) (InfoArr []) w1") auto
    note f2 = malloc_frame [OF m]
    from r c1 True m obtain rc2 N2 w3 where
      c2: "call_EnumAdapters2 env pLib N P w2 = Inr (rc2, N2, w3)"
      by (auto simp: dxcore_enum_adapters_def split: sum.splits)
    from call_EnumAdapters2_frame [OF c2] obtain infos where
      f3: "ctxs w3 = ctxs w2" "brk w3 = brk w2"
        "heap w3 = (if P = NULL then heap w2 else (heap w2)(P \<mapsto> InfoArr infos))"
      by auto
    have ctx3: "ctxs w3 pCtx = Some ctx" using f3 f2 f1 ctx by simp
    have inv3: "enum_inv P infos w3 pCtx"
      using ctx3 fresh f2 f3 by (simp add: enum_inv_def)
    show ?thesis
    proof (cases "rc2 = 0")
      case False
      with r c1 True m c2 have "free P w3 = Inr w'" by (simp add: dxcore_enum_adapters_def)
      from free_registry [OF inv3 this] free_frame [OF this] ctx3 fresh show ?thesis
        by (simp add: registry_fresh)
    next
      case rc2: True
      from r c1 True m c2 rc2 obtain w4 where
        l: "dxcore_enum_adapters_loop env pCtx pLib P 0 (unat N2) w3 = Inr w4"
        and fr: "free P w4 = Inr w'"
        by (auto simp: dxcore_enum_adapters_def split: sum.splits)
      from enum_loop_inv [OF inv3 l] have inv4: "enum_inv P infos w4 pCtx" .
      from inv4 obtain ctx4 where "ctxs w4 pCtx = Some ctx4"
        by (auto simp: enum_inv_def split: option.splits)
      with free_registry [OF inv4 fr] free_frame [OF fr] enum_inv_registry [OF inv4] show ?thesis
        by simp
    qed
  qed
qed

lemma deinit_loop_zero: "dxcore_deinit_context_loop p i 0 w = Inr w"
  by (simp add: dxcore_deinit_context_loop.simps)

lemma deinit_fresh:
  assumes "pCtx \<noteq> NULL" "ctxs w pCtx = Some ctx" "adapterList ctx = NULL" "adapterCount ctx = 0"
  shows "dxcore_deinit_context pCtx w =
           Inr (w\<lparr>trace := Ev_free NULL # trace w, ctxs := (ctxs w)(pCtx \<mapsto> ctx\<lparr>initialized := 0\<rparr>)\<rparr>)"
  using assms
  by (simp add: dxcore_deinit_context_def deinit_loop_zero free_null)

lemma init_error_fresh:
  assumes "pCtx \<noteq> NULL" "ctxs w pCtx = Some ctx" "adapterList ctx = NULL" "adapterCount ctx = 0"
  shows "dxcore_init_context_error pCtx lib w =
           Inr (-1, (if hDxcoreLib lib \<noteq> NULL
                     then w\<lparr>trace := Ev_dlclose (hDxcoreLib lib) # Ev_free NULL # trace w,
                            ctxs := (ctxs w)(pCtx \<mapsto> ctx\<lparr>initialized := 0\<rparr>)\<rparr>
                     else w\<lparr>trace := Ev_free NULL # trace w,
                            ctxs := (ctxs w)(pCtx \<mapsto> ctx\<lparr>initialized := 0\<rparr>)\<rparr>))"
  using assms
  by (simp add: dxcore_init_context_error_def deinit_fresh dlclose_def log_event_def)

lemma fresh_eq:
  "ctx\<lparr>initialized := 0, adapterCount := 0, adapterList := NULL\<rparr> =
   ctx\<lparr>adapterCount := 0, adapterList := NULL, initialized := 0\<rparr>"
  by (cases ctx) simp

lemma init_resolved:
  assumes p: "pCtx \<noteq> NULL" and ctx: "ctxs w pCtx = Some ctx"
    and t1: "t1 = Ev_dlopen ''libdxcore.so'' # trace w"
    and h: "h = dlopen_res env t1"
    and t2: "t2 = Ev_dlsym h ''D3DKMTEnumAdapters2'' # t1"
    and f1: "f1 = dlsym_res env t2"
    and t3: "t3 = Ev_dlsym h ''D3DKMTQueryAdapterInfo'' # t2"
    and f2: "f2 = dlsym_res env t3"
    and ok: "h \<noteq> NULL" "f1 \<noteq> NULL" "f2 \<noteq> NULL"
    and w3: "w3 = w\<lparr>ctxs := (ctxs w)(pCtx \<mapsto> ctx\<lparr>adapterCount := 0, adapterList := NULL, initialized := 0\<rparr>),
                   trace := t3\<rparr>"
    and lib: "lib = \<lparr>hDxcoreLib = h, pDxcoreEnumAdapters2 = f1, pDxcoreQueryAdapterInfo = f2\<rparr>"
  shows "dxcore_init_context env pCtx w =
           (case dxcore_enum_adapters env pCtx lib w3 of
              Inl f \<Rightarrow> Inl f
            | Inr w4 \<Rightarrow>
                (case ctxs w4 pCtx of
                   None \<Rightarrow> Inl InvalidPointer
                 | Some ctx4 \<Rightarrow>
                     Inr (0, w4\<lparr>ctxs := (ctxs w4)(pCtx \<mapsto> ctx4\<lparr>initialized := 1\<rparr>),
                                trace := Ev_dlclose h # trace w4\<rparr>)))"
  using p ok [unfolded h f1 f2 t1 t2 t3]
  by (simp add: dxcore_init_context_def fresh_eq ctx dlopen_def dlsym_def dlclose_def log_event_def Let_def
      h f1 f2 t1 t2 t3 w3 lib split: sum.splits option.splits)

lemma init_unresolved:
  assumes p: "pCtx \<noteq> NULL" and ctx: "ctxs w pCtx = Some ctx"
    and t1: "t1 = Ev_dlopen ''libdxcore.so'' # trace w"
    and h: "h = dlopen_res env t1"
    and t2: "t2 = Ev_dlsym h ''D3DKMTEnumAdapters2'' # t1"
    and f1: "f1 = dlsym_res env t2"
    and t3: "t3 = Ev_dlsym h ''D3DKMTQueryAdapterInfo'' # t2"
    and f2: "f2 = dlsym_res env t3"
    and bad: "h = NULL \<or> f1 = NULL \<or> f2 = NULL"
  shows "dxcore_init_context env pCtx w =
           Inr (-1, w\<lparr>ctxs := (ctxs w)(pCtx \<mapsto> ctx\<lparr>adapterCount := 0, adapterList := NULL, initialized := 0\<rparr>),
                      trace := (if h = NULL then Ev_free NULL # t1
                                else Ev_dlclose h # Ev_free NULL # (if f1 = NULL then t2 else t3))\<rparr>)"
proof -
  let ?fresh = "ctx\<lparr>adapterCount := 0, adapterList := NULL, initialized := 0\<rparr>"
  have e: "dxcore_init_context_error pCtx lib (w\<lparr>ctxs := (ctxs w)(pCtx \<mapsto> ?fresh), trace := t\<rparr>) =
             Inr (-1, w\<lparr>ctxs := (ctxs w)(pCtx \<mapsto> ?fresh),
                        trace := (if hDxcoreLib lib \<noteq> NULL then Ev_dlclose (hDxcoreLib lib) # Ev_free NULL # t
                                  else Ev_free NULL # t)\<rparr>)" for lib t
    by (subst init_error_fresh [where ctx = ?fresh]) (simp_all add: p)
  show ?thesis
  proof (cases "h = NULL")
    case True
    then show ?thesis
      using p e [of "\<lparr>hDxcoreLib = NULL, pDxcoreEnumAdapters2 = NULL, pDxcoreQueryAdapterInfo = NULL\<rparr>" t1]
      by (simp add: dxcore_init_context_def fresh_eq ctx dlopen_def log_event_def Let_def h [symmetric] t1 [symmetric])
  next
    case hn: False
    show ?thesis
    proof (cases "f1 = NULL")
      case True
      then show ?thesis
        using p hn e [of "\<lparr>hDxcoreLib = h, pDxcoreEnumAdapters2 = NULL, pDxcoreQueryAdapterInfo = NULL\<rparr>" t2]
        by (simp add: dxcore_init_context_def fresh_eq ctx dlopen_def dlsym_def log_event_def Let_def
            h [symmetric] t1 [symmetric] t2 [symmetric] f1 [symmetric])
    next
      case f1n: False
      with bad hn have "f2 = NULL" by simp
      then show ?thesis
        using p hn f1n e [of "\<lparr>hDxcoreLib = h, pDxcoreEnumAdapters2 = f1, pDxcoreQueryAdapterInfo = NULL\<rparr>" t3]
        by (simp add: dxcore_init_context_def fresh_eq ctx dlopen_def dlsym_def log_event_def Let_def
            h [symmetric] t1 [symmetric] t2 [symmetric] f1 [symmetric] t3 [symmetric] f2 [symmetric])
    qed
  qed
qed

lemma init_registry:
  assumes r: "dxcore_init_context env pCtx w = Inr (rc, w')"
  shows "list_all (\<lambda>a. 2700 \<le> wddmVersion a) (registry w' pCtx)"
proof -
  from r have p: "pCtx \<noteq> NULL"
    by (auto simp: dxcore_init_context_def split: if_splits)
  with r obtain ctx where ctx: "ctxs w pCtx = Some ctx"
    by (auto simp: dxcore_init_context_def split: option.splits)
  define t1 where "t1 = Ev_dlopen ''libdxcore.so'' # trace w"
  define h where "h = dlopen_res env t1"
  define t2 where "t2 = Ev_dlsym h ''D3DKMTEnumAdapters2'' # t1"
  define f1 where "f1 = dlsym_res env t2"
  define t3 where "t3 = Ev_dlsym h ''D3DKMTQueryAdapterInfo'' # t2"
  define f2 where "f2 = dlsym_res env t3"
  define fresh where "fresh = ctx\<lparr>adapterCount := 0, adapterList := NULL, initialized := 0\<rparr>"
  show ?thesis
  proof (cases "h = NULL \<or> f1 = NULL \<or> f2 = NULL")
    case True
    from init_unresolved [OF p ctx t1_def h_def t2_def f1_def t3_def f2_def True] r
    show ?thesis by (auto simp: registry_def)
  next
    case False
    define w3 where "w3 = w\<lparr>ctxs := (ctxs w)(pCtx \<mapsto> ctx\<lparr>adapterCount := 0, adapterList := NULL, initialized := 0\<rparr>),
                   trace := t3\<rparr>"
    define lib where "lib = \<lparr>hDxcoreLib = h, pDxcoreEnumAdapters2 = f1, pDxcoreQueryAdapterInfo = f2\<rparr>"
    from False have ok: "h \<noteq> NULL" "f1 \<noteq> NULL" "f2 \<noteq> NULL" by auto
    note i = init_resolved [OF p ctx t1_def h_def t2_def f1_def t3_def f2_def ok w3_def lib_def]
    from r i obtain w4 ctx4 where
      e: "dxcore_enum_adapters env pCtx lib w3 = Inr w4"
      and c4: "ctxs w4 pCtx = Some ctx4"
      and w': "w' = w4\<lparr>ctxs := (ctxs w4)(pCtx \<mapsto> ctx4\<lparr>initialized := 1\<rparr>), trace := Ev_dlclose h # trace w4\<rparr>"
      by (auto split: sum.splits option.splits)
    have "ctxs w3 pCtx = Some (ctx\<lparr>adapterCount := 0, adapterList := NULL, initialized := 0\<rparr>)"
      by (simp add: w3_def)
    from enum_adapters_registry [OF this _ _ e]
    have "list_all (\<lambda>a. 2700 \<le> wddmVersion a) (registry w4 pCtx)" by simp
    moreover have "registry w' pCtx = registry w4 pCtx"
      using c4 by (auto simp: w' registry_def split: option.splits block.splits)
    ultimately show ?thesis by simp
  qed
qed

lemma count_not_last:
  assumes "unat (c :: uint) \<le> i" and "Suc i < 2 ^ 32"
  shows "c + 1 \<noteq> 0"
proof
  assume "c + 1 = 0"
  then have "c = - 1" by (simp add: eq_neg_iff_add_eq_0)
  then have "unat c = 2 ^ 32 - 1" by (simp add: unsigned_minus_1_eq_mask mask_eq_exp_minus_1)
  with assms show False by simp
qed

lemma add_adapter_step:
  assumes lib: "pDxcoreQueryAdapterInfo pLib \<noteq> NULL"
    and inv: "enum_inv P infos w pCtx"
    and ctx: "ctxs w pCtx = Some ctx"
    and nz: "adapterCount ctx + 1 \<noteq> 0"
  shows "\<exists>w' ctx'. dxcore_add_adapter env pCtx pLib c w = Inr w' \<and> ctxs w' pCtx = Some ctx'
           \<and> (adapterCount ctx' = adapterCount ctx \<or> adapterCount ctx' = adapterCount ctx + 1)"
proof -
  define t0 where "t0 = Ev_QueryAdapterInfo (version_query (info_hAdapter c)) # trace w"
  obtain rc d where q: "QueryAdapterInfo_res env t0 = (rc, d)"
    by (cases "QueryAdapterInfo_res env t0") auto
  define v where "v = version_of 0 d"
  define w1 where "w1 = w\<lparr>trace := t0\<rparr>"
  have ver: "dxcore_query_adapter_wddm_version env pLib (info_hAdapter c) 0 w = Inr (rc, v, w1)"
    using q by (simp add: wddm_version_eq [OF lib] t0_def v_def w1_def)
  have inv1: "enum_inv P infos w1 pCtx"
    by (rule enum_inv_frame [OF inv]) (simp_all add: w1_def)
  have ctx1: "ctxs w1 pCtx = Some ctx" using ctx by (simp add: w1_def)
  show ?thesis
  proof (cases "rc \<noteq> 0 \<or> v < 2700")
    case True
    then have "dxcore_add_adapter env pCtx pLib c w = Inr w1"
      by (auto simp: dxcore_add_adapter_def ver)
    with ctx1 show ?thesis by simp
  next
    case False
    then have rc: "rc = 0" and ng: "\<not> v < 2700" by auto
    from driverstore_total [OF lib] obtain rc2 p w2 where
      d: "dxcore_query_adapter_driverstore env pLib (info_hAdapter c) NULL w1 = Inr (rc2, p, w2)"
      by blast
    note f2 = driverstore_frame [OF d]
    have inv2: "enum_inv P infos w2 pCtx"
      by (rule enum_inv_frame [OF inv1]) (use f2 in simp_all)
    have ctx2: "ctxs w2 pCtx = Some ctx" using ctx1 f2 by simp
    show ?thesis
    proof (cases "rc2 = 0")
      case False
      then have "dxcore_add_adapter env pCtx pLib c w = Inr w2"
        by (simp add: dxcore_add_adapter_def ver rc ng d)
      with ctx2 show ?thesis by simp
    next
      case True
      then have a: "dxcore_add_adapter env pCtx pLib c w = dxcore_add_adapter_track env pCtx c v p w2"
        by (simp add: dxcore_add_adapter_def ver rc ng d)
      from f2 True have p: "p \<noteq> NULL" "heap w2 p \<noteq> None" by auto
      from inv2 ctx2 obtain xs where
        live: "adapterList ctx \<noteq> NULL \<longrightarrow> heap w2 (adapterList ctx) = Some (AdapterArr xs)"
        and len: "length (if adapterList ctx = NULL then [] else xs) = unat (adapterCount ctx)"
        by (auto simp: enum_inv_def split: option.splits block.splits if_splits)
      define t where "t = Ev_realloc (adapterList ctx) (sizeof_dxcore_adapter * unat (adapterCount ctx + 1)) # trace w2"
      note tc = track_cases [OF ctx2 refl live len nz t_def, of env c v p]
      show ?thesis
      proof (cases "alloc_res env t")
        case False
        with tc p have "dxcore_add_adapter_track env pCtx c v p w2 =
                        Inr (w2\<lparr>heap := (heap w2)(p := None), trace := Ev_free p # t\<rparr>)"
          by (simp add: free_live)
        with a ctx2 show ?thesis by simp
      next
        case True
        with tc a ctx2 show ?thesis by simp
      qed
    qed
  qed
qed

lemma enum_loop_total:
  assumes lib: "pDxcoreQueryAdapterInfo pLib \<noteq> NULL"
    and len: "n \<le> length infos" and n32: "n < 2 ^ 32"
  shows "enum_inv P infos w pCtx \<Longrightarrow> ctxs w pCtx = Some ctx \<Longrightarrow> unat (adapterCount ctx) \<le> i \<Longrightarrow>
         P \<noteq> NULL \<or> n \<le> i \<Longrightarrow>
         \<exists>w'. dxcore_enum_adapters_loop env pCtx pLib P i n w = Inr w'"
proof (induction "n - i" arbitrary: i w ctx)
  case 0
  then have "\<not> i < n" by simp
  then show ?case by (simp add: dxcore_enum_adapters_loop.simps [of _ _ _ _ i n])
next
  case (Suc k)
  then have i: "i < n" by simp
  with Suc.prems have P: "P \<noteq> NULL" by simp
  with Suc.prems(1) Suc.prems(2) have hp: "heap w P = Some (InfoArr infos)"
    by (auto simp: enum_inv_def)
  have rd: "read_adapterInfo P i w = Inr (infos ! i)"
    using P hp i len by (simp add: read_adapterInfo_def)
  have nz: "adapterCount ctx + 1 \<noteq> 0"
    by (rule count_not_last [OF Suc.prems(3)]) (use i n32 in simp)
  from add_adapter_step [OF lib Suc.prems(1) Suc.prems(2) nz, of env "infos ! i"]
  obtain w1 ctx1 where
    ad: "dxcore_add_adapter env pCtx pLib (infos ! i) w = Inr w1"
    and c1: "ctxs w1 pCtx = Some ctx1"
    and cnt: "adapterCount ctx1 = adapterCount ctx \<or> adapterCount ctx1 = adapterCount ctx + 1"
    by blast
  have inv1: "enum_inv P infos w1 pCtx" by (rule add_adapter_inv [OF Suc.prems(1) ad])
  have b1: "unat (adapterCount ctx1) \<le> Suc i"
    using cnt Suc.prems(3) unat_plus_one [OF nz] by auto
  have k: "k = n - Suc i" using Suc.hyps(2) by simp
  from Suc.hyps(1) [OF k inv1 c1 b1] P obtain w' where
    "dxcore_enum_adapters_loop env pCtx pLib P (Suc i) n w1 = Inr w'" by blast
  with rd ad i show ?case
    by (simp add: dxcore_enum_adapters_loop.simps [of _ _ _ _ i n])
qed

lemma call_EnumAdapters2_eq:
  assumes "pDxcoreEnumAdapters2 pLib \<noteq> NULL"
    and "EnumAdapters2_res env (Ev_EnumAdapters2 N P # trace w) = (rc, n, infos)"
  shows "call_EnumAdapters2 env pLib N P w =
           Inr (rc, n, w\<lparr>heap := (if P = NULL then heap w else (heap w)(P \<mapsto> InfoArr infos)),
                         trace := Ev_EnumAdapters2 N P # trace w\<rparr>)"
  using assms by (simp add: call_EnumAdapters2_def log_event_def Let_def)

lemma enum_adapters_eq:
  assumes lib: "pDxcoreEnumAdapters2 pLib \<noteq> NULL"
    and tp: "tp = Ev_EnumAdapters2 0 NULL # trace w"
    and probe: "EnumAdapters2_res env tp = (rc, N, i0)"
    and tm: "tm = Ev_malloc (sizeof_dxcore_adapterInfo * unat N) # tp"
    and P: "P = (if alloc_res env tm then Suc (brk w) else NULL)"
    and tf: "tf = Ev_EnumAdapters2 N P # tm"
    and fill: "EnumAdapters2_res env tf = (rc2, N2, infos)"
    and w3: "w3 = w\<lparr>heap := (if P = NULL then heap w else (heap w)(P \<mapsto> InfoArr infos)),
                   brk := (if P = NULL then brk w else Suc (brk w)), trace := tf\<rparr>"
  shows "dxcore_enum_adapters env pCtx pLib w =
           (if rc \<noteq> 0 then Inr (w\<lparr>trace := tp\<rparr>)
            else if rc2 \<noteq> 0 then free P w3
            else (case dxcore_enum_adapters_loop env pCtx pLib P 0 (unat N2) w3 of
                    Inl f \<Rightarrow> Inl f
                  | Inr w4 \<Rightarrow> free P w4))"
proof -
  have c1: "call_EnumAdapters2 env pLib 0 NULL w = Inr (rc, N, w\<lparr>trace := tp\<rparr>)"
    using call_EnumAdapters2_eq [OF lib probe [unfolded tp]] by (simp add: tp)
  show ?thesis
  proof (cases "rc = 0")
    case False
    then show ?thesis by (simp add: dxcore_enum_adapters_def c1)
  next
    case True
    show ?thesis
    proof (cases "alloc_res env tm")
      case False
      then have Pn: "P = NULL" by (simp add: P)
      have m: "malloc env (sizeof_dxcore_adapterInfo * unat N) (InfoArr []) (w\<lparr>trace := tp\<rparr>) =
                 (NULL, w\<lparr>trace := tm\<rparr>)"
        using False by (simp add: malloc_def alloc_def log_event_def Let_def tm)
      have c2: "call_EnumAdapters2 env pLib N NULL (w\<lparr>trace := tm\<rparr>) = Inr (rc2, N2, w3)"
        using call_EnumAdapters2_eq [OF lib, of env N NULL "w\<lparr>trace := tm\<rparr>" rc2 N2 infos] fill
        by (simp add: tf Pn w3)
      show ?thesis
        unfolding Pn using True by (simp add: dxcore_enum_adapters_def c1 m c2)
    next
      case ok: True
      then have Pn: "P = Suc (brk w)" by (simp add: P)
      have m: "malloc env (sizeof_dxcore_adapterInfo * unat N) (InfoArr []) (w\<lparr>trace := tp\<rparr>) =
                 (P, w\<lparr>heap := (heap w)(P \<mapsto> InfoArr []), brk := Suc (brk w), trace := tm\<rparr>)"
        using ok by (simp add: malloc_def alloc_def log_event_def Let_def tm Pn)
      have c2: "call_EnumAdapters2 env pLib N P
                  (w\<lparr>heap := (heap w)(P \<mapsto> InfoArr []), brk := Suc (brk w), trace := tm\<rparr>) =
                Inr (rc2, N2, w3)"
        using call_EnumAdapters2_eq [OF lib, of env N P
            "w\<lparr>heap := (heap w)(P \<mapsto> InfoArr []), brk := Suc (brk w), trace := tm\<rparr>" rc2 N2 infos] fill
        by (simp add: tf Pn w3)
      show ?thesis
        using True by (simp add: dxcore_enum_adapters_def c1 m c2)
    qed
  qed
qed

lemma enum_adapters_total:
  assumes libE: "pDxcoreEnumAdapters2 pLib \<noteq> NULL"
    and libQ: "pDxcoreQueryAdapterInfo pLib \<noteq> NULL"
    and ctx: "ctxs w pCtx = Some ctx" and fresh: "adapterList ctx = NULL" "adapterCount ctx = 0"
    and tp: "tp = Ev_EnumAdapters2 0 NULL # trace w"
    and probe: "EnumAdapters2_res env tp = (rc, N, i0)"
    and tm: "tm = Ev_malloc (sizeof_dxcore_adapterInfo * unat N) # tp"
    and P: "P = (if alloc_res env tm then Suc (brk w) else NULL)"
    and tf: "tf = Ev_EnumAdapters2 N P # tm"
    and fill: "EnumAdapters2_res env tf = (rc2, N2, infos)"
    and good: "rc = 0 \<and> rc2 = 0 \<longrightarrow> unat N2 \<le> length infos \<and> (P \<noteq> NULL \<or> N2 = 0)"
  shows "\<exists>w'. dxcore_enum_adapters env pCtx pLib w = Inr w' \<and> (\<exists>ctx'. ctxs w' pCtx = Some ctx')
           \<and> (rc \<noteq> 0 \<or> rc2 \<noteq> 0 \<longrightarrow> ctxs w' = ctxs w)"
proof -
  define w3 where "w3 = w\<lparr>heap := (if P = NULL then heap w else (heap w)(P \<mapsto> InfoArr infos)),
                   brk := (if P = NULL then brk w else Suc (brk w)), trace := tf\<rparr>"
  note e = enum_adapters_eq [OF libE tp probe tm P tf fill w3_def, of pCtx]
  have inv3: "enum_inv P infos w3 pCtx"
    using ctx fresh by (simp add: enum_inv_def w3_def P)
  have fr: "\<exists>w'. free P w4 = Inr w' \<and> ctxs w' = ctxs w4" if "enum_inv P infos w4 pCtx" for w4
  proof (cases "P = NULL")
    case True
    then show ?thesis by (simp add: free_null)
  next
    case False
    with that have "heap w4 P \<noteq> None" by (auto simp: enum_inv_def split: option.splits)
    with False show ?thesis by (simp add: free_live)
  qed
  show ?thesis
  proof (cases "rc \<noteq> 0")
    case True
    with e ctx show ?thesis by simp
  next
    case rc: False
    show ?thesis
    proof (cases "rc2 \<noteq> 0")
      case True
      from fr [OF inv3] obtain w' where "free P w3 = Inr w'" "ctxs w' = ctxs w3" by blast
      with e rc True ctx show ?thesis by (simp add: w3_def)
    next
      case False
      with rc good have g: "unat N2 \<le> length infos" "P \<noteq> NULL \<or> unat N2 \<le> 0" by auto
      have c3: "ctxs w3 pCtx = Some ctx" using ctx by (simp add: w3_def)
      have n32: "unat N2 < 2 ^ 32" using unsigned_less [of N2] by simp
      from enum_loop_total [OF libQ g(1) n32 inv3 c3 _ g(2)] fresh obtain w4 where
        l: "dxcore_enum_adapters_loop env pCtx pLib P 0 (unat N2) w3 = Inr w4" by auto
      from enum_loop_inv [OF inv3 l] have inv4: "enum_inv P infos w4 pCtx" .
      from fr [OF inv4] obtain w' where f: "free P w4 = Inr w'" "ctxs w' = ctxs w4" by blast
      from inv4 obtain ctx4 where "ctxs w4 pCtx = Some ctx4"
        by (auto simp: enum_inv_def split: option.splits)
      with e rc False l f show ?thesis by simp
    qed
  qed
qed

lemma add_adapter_appends:
  assumes lib: "pDxcoreQueryAdapterInfo pLib \<noteq> NULL"
    and ctx: "ctxs w pCtx = Some ctx"
    and wf: "adapterList ctx \<le> brk w"
    and old: "old = (if adapterList ctx = NULL then [] else xs)"
    and live: "adapterList ctx \<noteq> NULL \<longrightarrow> heap w (adapterList ctx) = Some (AdapterArr xs)"
    and len: "length old = unat (adapterCount ctx)"
    and nz: "adapterCount ctx + 1 \<noteq> 0"
    and t0: "t0 = Ev_QueryAdapterInfo (version_query (info_hAdapter c)) # trace w"
    and ver: "QueryAdapterInfo_res env t0 = (0, VersionData v)"
    and gate: "2700 \<le> v"
    and path: "dxcore_query_adapter_driverstore env pLib (info_hAdapter c) NULL (w\<lparr>trace := t0\<rparr>) = Inr (0, path, w2)"
    and t5: "t5 = Ev_realloc (adapterList ctx) (sizeof_dxcore_adapter * unat (adapterCount ctx + 1)) # trace w2"
    and ok: "alloc_res env t5"
  shows "\<exists>w' ctx' e. dxcore_add_adapter env pCtx pLib c w = Inr w'
           \<and> ctxs w' pCtx = Some ctx' \<and> adapterCount ctx' = adapterCount ctx + 1
           \<and> heap w' (adapterList ctx') = Some (AdapterArr (old @ [e]))
           \<and> registry w' pCtx = old @ [e]
           \<and> hAdapter e = info_hAdapter c \<and> wddmVersion e = v \<and> pDriverStorePath e = path"
proof -
  note a = add_adapter_qualified [OF lib ctx wf old live len nz t0 ver gate path t5]
  have u: "unat (adapterCount ctx + 1) = Suc (length old)"
    using unat_plus_one [OF nz] len by simp
  show ?thesis
    using ok by (simp add: a registry_def u)
qed














section \<open>The simulated platform, evaluated\<close>

lemma sim_lib_simps [simp]: "pDxcoreQueryAdapterInfo sim_lib = 200" "pDxcoreEnumAdapters2 sim_lib = 200" "hDxcoreLib sim_lib = 100"
  by (simp_all add: sim_lib_def)

lemma sim_env_simps [simp]:
  "dlopen_res (sim_env ver N path) = (\<lambda>t. 100)"
  "dlsym_res (sim_env ver N path) = (\<lambda>t. 200)"
  "alloc_res (sim_env ver N path) = (\<lambda>t. True)"
  "junk_adapter (sim_env ver N path) = (\<lambda>t. zero_adapter)"
  "wctomb_res (sim_env ver N path) = wctomb_posix"
  "EnumAdapters2_res (sim_env ver N path) = (\<lambda>t. (0, 1, [sim_info 7]))"
  "QueryAdapterInfo_res (sim_env ver N path) = sim_QueryAdapterInfo ver N path"
  by (simp_all add: sim_env_def)

lemma sim_query_version [simp]:
  "sim_QueryAdapterInfo ver N path (Ev_QueryAdapterInfo (version_query h) # t) = (0, VersionData ver)"
  by (simp add: sim_QueryAdapterInfo_def version_query_def)

lemma sim_query_probe [simp]:
  "sim_QueryAdapterInfo ver N path (Ev_QueryAdapterInfo (driverstore_probe_query h) # t) =
     (0, RegistryData ((zero_queryregistry_info 2)
        \<lparr>QueryType := DXCORE_QUERYREGISTRY_DRIVERSTOREPATH, OutputValueSize := of_nat N, Output := path\<rparr>))"
  by (simp add: sim_QueryAdapterInfo_def driverstore_probe_query_def)

lemma sim_query_fill [simp]:
  "sim_QueryAdapterInfo ver N path (Ev_QueryAdapterInfo (driverstore_fill_query h M) # t) =
     (0, RegistryData ((zero_queryregistry_info (M div sizeof_wchar_t + 3))
        \<lparr>QueryType := DXCORE_QUERYREGISTRY_DRIVERSTOREPATH, OutputValueSize := of_nat N, Output := path\<rparr>))"
  by (simp add: sim_QueryAdapterInfo_def driverstore_fill_query_def)

lemma sim_driverstore:
  assumes N: "N \<le> 1040"
    and wide: "wide = (take (N div sizeof_wchar_t + 3) (path @ replicate (N div sizeof_wchar_t + 3) 0))
                        [N div sizeof_wchar_t := 0]"
    and written: "written = fst (wcstombs wctomb_posix wide (N div sizeof_wchar_t))"
  shows "dxcore_query_adapter_driverstore (sim_env ver N path) sim_lib h pp w =
           Inr (0, Suc (Suc (brk w)),
                w\<lparr>heap := (heap w)(Suc (brk w) := None,
                               Suc (Suc (brk w)) \<mapsto> CharBuf (written @ replicate (N div sizeof_wchar_t + 1 - length written) 0)),
                  brk := Suc (Suc (brk w)),
                  trace := Ev_free (Suc (brk w)) # Ev_calloc (N div sizeof_wchar_t + 1) 1 #
                           Ev_QueryAdapterInfo (driverstore_fill_query h N) #
                           Ev_calloc (sizeof_dxcore_queryregistry_info + N + sizeof_wchar_t) 1 #
                           Ev_QueryAdapterInfo (driverstore_probe_query h) # trace w\<rparr>)"
proof -
  have u: "unat (word_of_nat N :: uint) = N"
    using N by (simp add: unat_of_nat)
  show ?thesis
    by (rule driverstore_success [where r = "(zero_queryregistry_info 2)
          \<lparr>QueryType := DXCORE_QUERYREGISTRY_DRIVERSTOREPATH, OutputValueSize := of_nat N, Output := path\<rparr>"
          and ?r2.0 = "(zero_queryregistry_info (N div sizeof_wchar_t + 3))
          \<lparr>QueryType := DXCORE_QUERYREGISTRY_DRIVERSTOREPATH, OutputValueSize := of_nat N, Output := path\<rparr>",
          OF _ refl _ _ _ refl _ refl _ refl])
       (simp_all add: u max_path_bytes N wide written)
qed

lemma replicate_numeral: "replicate (numeral k) x = x # replicate (pred_numeral k) x"
  by (simp add: numeral_eq_Suc)

lemma sim_add_adapter:
  assumes ver: "2700 \<le> ver"
    and ctx: "ctxs w 1000 = Some \<lparr>adapterCount = 0, adapterList = NULL, initialized = i\<rparr>"
  shows "dxcore_add_adapter (sim_env ver 52 sim_path) 1000 sim_lib (sim_info 7) w =
           Inr (w\<lparr>heap := (heap w)(Suc (brk w) := None,
                    Suc (Suc (brk w)) \<mapsto> CharBuf [0x43, 0x3A, 0x5C, 0x64, 0x72, 0x69, 0x76, 0x65, 0x72, 0x73, 0x5C, 0x76, 0x31, 0],
                    Suc (Suc (Suc (brk w))) \<mapsto> AdapterArr [zero_adapter\<lparr>hAdapter := 7, wddmVersion := ver,
                                                            pDriverStorePath := Suc (Suc (brk w))\<rparr>]),
                  brk := Suc (Suc (Suc (brk w))),
                  ctxs := (ctxs w)(1000 \<mapsto> \<lparr>adapterCount = 1, adapterList = Suc (Suc (Suc (brk w))), initialized = i\<rparr>),
                  trace := Ev_realloc NULL (sizeof_dxcore_adapter * 1) #
                           Ev_free (Suc (brk w)) # Ev_calloc 14 1 #
                           Ev_QueryAdapterInfo (driverstore_fill_query 7 52) #
                           Ev_calloc (sizeof_dxcore_queryregistry_info + 52 + sizeof_wchar_t) 1 #
                           Ev_QueryAdapterInfo (driverstore_probe_query 7) #
                           Ev_QueryAdapterInfo (version_query 7) # trace w\<rparr>)"
proof -
  have n: "fst (wcstombs wctomb_posix ((take (52 div sizeof_wchar_t + 3) (sim_path @ replicate (52 div sizeof_wchar_t + 3) 0))
             [52 div sizeof_wchar_t := 0]) (52 div sizeof_wchar_t)) =
           [0x43, 0x3A, 0x5C, 0x64, 0x72, 0x69, 0x76, 0x65, 0x72, 0x73, 0x5C, 0x76, 0x31]"
    by (simp add: sim_path_def wctomb_posix_def numeral_3_eq_3 sizeof_wchar_t_def)
  note d = sim_driverstore [where N = 52 and path = sim_path and ver = ver and h = 7 and pp = NULL
      and w = "w\<lparr>trace := Ev_QueryAdapterInfo (version_query 7) # trace w\<rparr>", OF _ refl refl, unfolded n]
  have d': "dxcore_query_adapter_driverstore (sim_env ver 52 sim_path) sim_lib (info_hAdapter (sim_info 7)) NULL
              (w\<lparr>trace := Ev_QueryAdapterInfo (version_query (info_hAdapter (sim_info 7))) # trace w\<rparr>) =
            Inr (0, Suc (Suc (brk w)),
              w\<lparr>heap := (heap w)(Suc (brk w) := None,
                    Suc (Suc (brk w)) \<mapsto> CharBuf [0x43, 0x3A, 0x5C, 0x64, 0x72, 0x69, 0x76, 0x65, 0x72, 0x73, 0x5C, 0x76, 0x31, 0]),
                brk := Suc (Suc (brk w)),
                trace := Ev_free (Suc (brk w)) # Ev_calloc 14 1 #
                           Ev_QueryAdapterInfo (driverstore_fill_query 7 52) #
                           Ev_calloc (sizeof_dxcore_queryregistry_info + 52 + sizeof_wchar_t) 1 #
                           Ev_QueryAdapterInfo (driverstore_probe_query 7) #
                           Ev_QueryAdapterInfo (version_query 7) # trace w\<rparr>)"
    using d by (simp add: sim_info_def sizeof_wchar_t_def)
  show ?thesis
    by (subst add_adapter_qualified [where v = ver and old = "[]" and xs = "[]", OF _ ctx _ _ _ _ _ refl _ ver d' refl])
       (simp_all add: sim_info_def)
qed

lemma enum_loop_done: "\<not> i < n \<Longrightarrow> dxcore_enum_adapters_loop env pCtx pLib P i n w = Inr w"
  by (simp add: dxcore_enum_adapters_loop.simps [of _ _ _ _ i n])

lemma enum_loop_step:
  "i < n \<Longrightarrow> read_adapterInfo P i w = Inr c \<Longrightarrow> dxcore_add_adapter env pCtx pLib c w = Inr w1 \<Longrightarrow>
   dxcore_enum_adapters_loop env pCtx pLib P i n w = dxcore_enum_adapters_loop env pCtx pLib P (Suc i) n w1"
  by (simp add: dxcore_enum_adapters_loop.simps [of _ _ _ _ i n])

lemma sim_enum_adapters:
  assumes ver: "2700 \<le> ver"
    and ctx: "ctxs w 1000 = Some \<lparr>adapterCount = 0, adapterList = NULL, initialized = i\<rparr>"
  shows "dxcore_enum_adapters (sim_env ver 52 sim_path) 1000 sim_lib w =
           Inr (w\<lparr>heap := (heap w)(Suc (brk w) := None, Suc (Suc (brk w)) := None,
                    Suc (Suc (Suc (brk w))) \<mapsto> CharBuf [0x43, 0x3A, 0x5C, 0x64, 0x72, 0x69, 0x76, 0x65, 0x72, 0x73, 0x5C, 0x76, 0x31, 0],
                    Suc (Suc (Suc (Suc (brk w)))) \<mapsto> AdapterArr [zero_adapter\<lparr>hAdapter := 7, wddmVersion := ver,
                                                            pDriverStorePath := Suc (Suc (Suc (brk w)))\<rparr>]),
                  brk := Suc (Suc (Suc (Suc (brk w)))),
                  ctxs := (ctxs w)(1000 \<mapsto> \<lparr>adapterCount = 1, adapterList = Suc (Suc (Suc (Suc (brk w)))), initialized = i\<rparr>),
                  trace := Ev_free (Suc (brk w)) # Ev_realloc NULL (sizeof_dxcore_adapter * 1) #
                           Ev_free (Suc (Suc (brk w))) # Ev_calloc 14 1 #
                           Ev_QueryAdapterInfo (driverstore_fill_query 7 52) #
                           Ev_calloc (sizeof_dxcore_queryregistry_info + 52 + sizeof_wchar_t) 1 #
                           Ev_QueryAdapterInfo (driverstore_probe_query 7) #
                           Ev_QueryAdapterInfo (version_query 7) #
                           Ev_EnumAdapters2 1 (Suc (brk w)) # Ev_malloc (sizeof_dxcore_adapterInfo * 1) #
                           Ev_EnumAdapters2 0 NULL # trace w\<rparr>)"
proof -
  let ?E = "sim_env ver 52 sim_path"
  define w3 where "w3 = w\<lparr>heap := (heap w)(Suc (brk w) \<mapsto> InfoArr [sim_info 7]), brk := Suc (brk w),
       trace := Ev_EnumAdapters2 1 (Suc (brk w)) # Ev_malloc (sizeof_dxcore_adapterInfo * unat (1 :: uint)) #
                Ev_EnumAdapters2 0 NULL # trace w\<rparr>"
  have e: "dxcore_enum_adapters ?E 1000 sim_lib w =
           (case dxcore_enum_adapters_loop ?E 1000 sim_lib (Suc (brk w)) 0 (unat (1 :: uint)) w3 of
                    Inl f \<Rightarrow> Inl f
                  | Inr w4 \<Rightarrow> free (Suc (brk w)) w4)"
    by (subst enum_adapters_eq [where rc = 0 and N = 1 and ?i0.0 = "[sim_info 7]" and ?rc2.0 = 0 and ?N2.0 = 1
          and infos = "[sim_info 7]" and ?w3.0 = w3 and P = "Suc (brk w)", OF _ refl _ refl _ refl])
       (simp_all add: w3_def)
  have c3: "ctxs w3 1000 = Some \<lparr>adapterCount = 0, adapterList = NULL, initialized = i\<rparr>"
    using ctx by (simp add: w3_def)
  have rd: "read_adapterInfo (Suc (brk w)) 0 w3 = Inr (sim_info 7)"
    by (simp add: read_adapterInfo_def w3_def)
  note a = sim_add_adapter [OF ver c3]
  define w4 where "w4 = projr (dxcore_add_adapter ?E 1000 sim_lib (sim_info 7) w3)"
  have aw: "dxcore_add_adapter ?E 1000 sim_lib (sim_info 7) w3 = Inr w4"
    by (simp add: w4_def a)
  have l: "dxcore_enum_adapters_loop ?E 1000 sim_lib (Suc (brk w)) 0 (unat (1 :: uint)) w3 = Inr w4"
    by (subst enum_loop_step [OF _ rd aw]) (simp_all add: enum_loop_done)
  have w4: "w4 = w3\<lparr>heap := (heap w3)(Suc (brk w3) := None,
                    Suc (Suc (brk w3)) \<mapsto> CharBuf [0x43, 0x3A, 0x5C, 0x64, 0x72, 0x69, 0x76, 0x65, 0x72, 0x73, 0x5C, 0x76, 0x31, 0],
                    Suc (Suc (Suc (brk w3))) \<mapsto> AdapterArr [zero_adapter\<lparr>hAdapter := 7, wddmVersion := ver,
                                                            pDriverStorePath := Suc (Suc (brk w3))\<rparr>]),
                  brk := Suc (Suc (Suc (brk w3))),
                  ctxs := (ctxs w3)(1000 \<mapsto> \<lparr>adapterCount = 1, adapterList = Suc (Suc (Suc (brk w3))), initialized = i\<rparr>),
                  trace := Ev_realloc NULL (sizeof_dxcore_adapter * 1) #
                           Ev_free (Suc (brk w3)) # Ev_calloc 14 1 #
                           Ev_QueryAdapterInfo (driverstore_fill_query 7 52) #
                           Ev_calloc (sizeof_dxcore_queryregistry_info + 52 + sizeof_wchar_t) 1 #
                           Ev_QueryAdapterInfo (driverstore_probe_query 7) #
                           Ev_QueryAdapterInfo (version_query 7) # trace w3\<rparr>"
    unfolding w4_def a by simp
  have b3: "brk w3 = Suc (brk w)" "ctxs w3 = ctxs w" "heap w3 = (heap w)(Suc (brk w) \<mapsto> InfoArr [sim_info 7])"
    by (simp_all add: w3_def)
  have f: "free (Suc (brk w)) w4 =
             Inr (w4\<lparr>heap := (heap w4)(Suc (brk w) := None), trace := Ev_free (Suc (brk w)) # trace w4\<rparr>)"
    by (rule free_live) (simp_all add: w4 b3)
  have hp: "((heap w)(Suc (brk w) \<mapsto> InfoArr [sim_info 7], Suc (Suc (brk w)) := None,
               Suc (Suc (Suc (brk w))) \<mapsto> B1, Suc (Suc (Suc (Suc (brk w)))) \<mapsto> B2))(Suc (brk w) := None) =
            (heap w)(Suc (brk w) := None, Suc (Suc (brk w)) := None,
               Suc (Suc (Suc (brk w))) \<mapsto> B1, Suc (Suc (Suc (Suc (brk w)))) \<mapsto> B2)" for B1 B2
    by (rule ext) simp
  show ?thesis
    unfolding e l
    by (simp add: f) (simp add: w4 b3 hp w3_def)
qed

lemma sim_init:
  "dxcore_init_context (sim_env 2700 52 sim_path) 1000 sim_world = Inr (0, sim_session\<lparr>trace := sim_init_trace\<rparr>)"
proof -
  let ?E = "sim_env 2700 52 sim_path"
  let ?fresh = "\<lparr>adapterCount = 0, adapterList = NULL, initialized = 0\<rparr>"
  define w3 where "w3 = sim_world\<lparr>ctxs := (ctxs sim_world)(1000 \<mapsto>
        \<lparr>adapterCount = 9, adapterList = 77, initialized = 5\<rparr>\<lparr>adapterCount := 0, adapterList := NULL, initialized := 0\<rparr>),
      trace := [Ev_dlsym 100 ''D3DKMTQueryAdapterInfo'', Ev_dlsym 100 ''D3DKMTEnumAdapters2'',
                Ev_dlopen ''libdxcore.so'']\<rparr>"
  have i: "dxcore_init_context ?E 1000 sim_world =
           (case dxcore_enum_adapters ?E 1000 sim_lib w3 of
              Inl f \<Rightarrow> Inl f
            | Inr w4 \<Rightarrow>
                (case ctxs w4 1000 of
                   None \<Rightarrow> Inl InvalidPointer
                 | Some ctx4 \<Rightarrow>
                     Inr (0, w4\<lparr>ctxs := (ctxs w4)(1000 \<mapsto> ctx4\<lparr>initialized := 1\<rparr>),
                                trace := Ev_dlclose 100 # trace w4\<rparr>)))"
    by (subst init_resolved [where h = 100 and ?f1.0 = 200 and ?f2.0 = 200 and ?w3.0 = w3 and lib = sim_lib
          and ctx = "\<lparr>adapterCount = 9, adapterList = 77, initialized = 5\<rparr>", OF _ _ refl _ refl _ refl])
       (simp_all add: sim_world_def w3_def sim_lib_def)
  have c3: "ctxs w3 1000 = Some \<lparr>adapterCount = 0, adapterList = NULL, initialized = 0\<rparr>"
    by (simp add: w3_def)
  have n: "Suc (Suc NULL) = 2" "Suc (Suc (Suc NULL)) = 3" "Suc (Suc (Suc (Suc NULL))) = 4"
    by simp_all
  have b: "brk w3 = 0" "heap w3 = Map.empty" "trace w3 = [Ev_dlsym 100 ''D3DKMTQueryAdapterInfo'', Ev_dlsym 100 ''D3DKMTEnumAdapters2'',
                Ev_dlopen ''libdxcore.so'']"
    by (simp_all add: w3_def sim_world_def)
  have hp: "(Map.empty :: ptr \<rightharpoonup> block)(Suc 0 := None, 2 := None, 3 \<mapsto> B1, 4 \<mapsto> B2) = [3 \<mapsto> B1, 4 \<mapsto> B2]" for B1 B2
    by (rule ext) simp
  show ?thesis
    unfolding i sim_enum_adapters [OF order_refl c3] b
    by (simp add: n hp sim_session_def sim_init_trace_def w3_def sim_world_def)
qed

lemma sim_version_step:
  "QueryAdapterInfo_res (sim_env ver N p) (Ev_QueryAdapterInfo (version_query h) # t) = (0, VersionData ver)"
  by simp


lemma sim_env_no_realloc_simps [simp]:
  "QueryAdapterInfo_res (sim_env_no_realloc ver N path) = sim_QueryAdapterInfo ver N path"
  "wctomb_res (sim_env_no_realloc ver N path) = wctomb_posix"
  "alloc_res (sim_env_no_realloc ver N path) (Ev_calloc a b # t)"
  "\<not> alloc_res (sim_env_no_realloc ver N path) (Ev_realloc p n # t)"
  by (simp_all add: sim_env_no_realloc_def)



section \<open>An oversized driver store path\<close>

text \<open>
  C6. For every candidate adapter that passes the version gate, when the size probe of
  the driver store path query reports an \<open>OutputValueSize\<close> greater than
  \<open>DXCORE_MAX_PATH\<close> wide characters in bytes,
  \<^verbatim>\<open>dxcore_query_adapter_driverstore\<close> returns \<open>-1\<close> in the world the probe left:
  nothing is allocated, the fill query is not issued, and the caller's pointer is as it
  was. \<^verbatim>\<open>dxcore_add_adapter\<close> then returns without touching the session, so the
  candidate is skipped.
\<close>

theorem oversized_path_is_skipped:
  assumes lib: "pDxcoreQueryAdapterInfo pLib \<noteq> NULL"
    and t0: "t0 = Ev_QueryAdapterInfo (version_query (info_hAdapter c)) # trace w"
    and ver: "QueryAdapterInfo_res env t0 = (0, VersionData v)"
    and gate: "2700 \<le> v"
    and t1: "t1 = Ev_QueryAdapterInfo (driverstore_probe_query (info_hAdapter c)) # t0"
    and probe: "QueryAdapterInfo_res env t1 = (0, RegistryData r)"
    and big: "DXCORE_MAX_PATH * sizeof_wchar_t < unat (OutputValueSize r)"
  shows "dxcore_query_adapter_driverstore env pLib (info_hAdapter c) NULL (w\<lparr>trace := t0\<rparr>) =
           Inr (-1, NULL, w\<lparr>trace := t1\<rparr>)
         \<and> dxcore_add_adapter env pCtx pLib c w = Inr (w\<lparr>trace := t1\<rparr>)"
proof -
  have p: "QueryAdapterInfo_res env
             (Ev_QueryAdapterInfo (driverstore_probe_query (info_hAdapter c)) # trace (w\<lparr>trace := t0\<rparr>)) =
           (0, RegistryData r)"
    using probe t1 by simp
  have d: "dxcore_query_adapter_driverstore env pLib (info_hAdapter c) NULL (w\<lparr>trace := t0\<rparr>) =
           Inr (-1, NULL, w\<lparr>trace := t1\<rparr>)"
    using driverstore_oversized [OF lib p big, of NULL] t1 by simp
  have v: "dxcore_query_adapter_wddm_version env pLib (info_hAdapter c) 0 w = Inr (0, v, w\<lparr>trace := t0\<rparr>)"
    using ver t0 by (simp add: wddm_version_eq [OF lib] version_of_def)
  have "\<not> v < 2700" using gate by simp
  then have "dxcore_add_adapter env pCtx pLib c w = Inr (w\<lparr>trace := t1\<rparr>)"
    by (simp add: dxcore_add_adapter_def v d)
  with d show ?thesis by simp
qed

theorem oversized_path_is_skipped_witness:
  "dxcore_query_adapter_driverstore (sim_env 2700 1044 []) sim_lib 7 NULL
       (sim_world\<lparr>trace := [Ev_QueryAdapterInfo (version_query 7)]\<rparr>) =
     Inr (-1, NULL, sim_world\<lparr>trace := [Ev_QueryAdapterInfo (driverstore_probe_query 7),
                                          Ev_QueryAdapterInfo (version_query 7)]\<rparr>)
   \<and> dxcore_add_adapter (sim_env 2700 1044 []) 1000 sim_lib (sim_info 7) sim_world =
     Inr (sim_world\<lparr>trace := [Ev_QueryAdapterInfo (driverstore_probe_query 7),
                                Ev_QueryAdapterInfo (version_query 7)]\<rparr>)"
  using oversized_path_is_skipped [of sim_lib _ "sim_info 7" sim_world "sim_env 2700 1044 []" 2700 _
      "(zero_queryregistry_info 2)\<lparr>QueryType := DXCORE_QUERYREGISTRY_DRIVERSTOREPATH, OutputValueSize := 1044, Output := []\<rparr>" 1000,
      OF _ refl _ _ refl]
  by (simp add: sim_info_def sim_world_def max_path_bytes)

section \<open>The resolved driver store path\<close>

text \<open>
  C3, as amended. When the size probe succeeds and reports \<open>N\<close> bytes, at most
  \<open>DXCORE_MAX_PATH\<close> wide characters, both allocations succeed and the fill query
  succeeds, \<^verbatim>\<open>dxcore_query_adapter_driverstore\<close> returns 0 and a pointer that is not
  null, to a buffer that was allocated with \<open>n + 1\<close> bytes for \<open>n = N / sizeof(wchar_t)\<close>,
  has that length and ends in a null byte. Its content is what \<^verbatim>\<open>wcstombs\<close> made
  of the wide string: where each of the wide characters before the first null among the
  first \<open>n\<close> converts to one byte, it is these bytes in order, then null bytes. A path
  of 13 ASCII characters gives the same 13 characters in 14 bytes.
\<close>

theorem driverstore_path_content:
  assumes lib: "pDxcoreQueryAdapterInfo pLib \<noteq> NULL"
    and t1: "t1 = Ev_QueryAdapterInfo (driverstore_probe_query h) # trace w"
    and probe: "QueryAdapterInfo_res env t1 = (0, RegistryData r)"
    and N: "N = unat (OutputValueSize r)"
    and small: "N \<le> DXCORE_MAX_PATH * sizeof_wchar_t"
    and n: "n = N div sizeof_wchar_t"
    and t2: "t2 = Ev_calloc (sizeof_dxcore_queryregistry_info + N + sizeof_wchar_t) 1 # t1"
    and a1: "alloc_res env t2"
    and t3: "t3 = Ev_QueryAdapterInfo (driverstore_fill_query h N) # t2"
    and fill: "QueryAdapterInfo_res env t3 = (0, RegistryData r2)"
    and t4: "t4 = Ev_calloc (n + 1) 1 # t3"
    and a2: "alloc_res env t4"
    and cs: "cs = takeWhile (\<lambda>c. c \<noteq> 0) (take n (Output r2))"
  shows "\<exists>w' buf. dxcore_query_adapter_driverstore env pLib h pp w = Inr (0, Suc (Suc (brk w)), w')
           \<and> trace w' = Ev_free (Suc (brk w)) # t4
           \<and> heap w' (Suc (Suc (brk w))) = Some (CharBuf buf)
           \<and> length buf = n + 1 \<and> last buf = 0
           \<and> ((\<forall>c\<in>set cs. \<exists>b. wctomb_res env c = Some [b]) \<longrightarrow>
                buf = map (\<lambda>c. hd (the (wctomb_res env c))) cs @ replicate (n + 1 - length cs) 0)"
proof -
  define wide where "wide = (take (n + 3) (Output r2 @ replicate (n + 3) 0))[n := 0]"
  define written where "written = fst (wcstombs (wctomb_res env) wide n)"
  define buf where "buf = written @ replicate (n + 1 - length written) 0"
  have t4': "t4 = Ev_calloc (N div sizeof_wchar_t + 1) 1 # t3" using t4 n by simp
  have res: "dxcore_query_adapter_driverstore env pLib h pp w =
           Inr (0, Suc (Suc (brk w)),
                w\<lparr>heap := (heap w)(Suc (brk w) := None, Suc (Suc (brk w)) \<mapsto> CharBuf buf),
                  brk := Suc (Suc (brk w)),
                  trace := Ev_free (Suc (brk w)) # t4\<rparr>)"
    unfolding buf_def n
    by (rule driverstore_success [OF lib t1 probe N small t2 a1 t3 fill t4' a2])
       (simp_all add: wide_def written_def n)
  have "length buf = n + 1" "last buf = 0"
    unfolding buf_def written_def using wcstombs_padded [of "wctomb_res env" wide n] by simp_all
  moreover have "(\<forall>c\<in>set cs. \<exists>b. wctomb_res env c = Some [b]) \<longrightarrow>
                buf = map (\<lambda>c. hd (the (wctomb_res env c))) cs @ replicate (n + 1 - length cs) 0"
    unfolding buf_def using narrow_of_wide [OF cs _ written_def [unfolded wide_def]] by blast
  ultimately show ?thesis using res by simp
qed


theorem driverstore_path_content_witness:
  "\<exists>w'. dxcore_query_adapter_driverstore (sim_env 2700 52 sim_path) sim_lib 7 NULL sim_world = Inr (0, 2, w')
        \<and> trace w' ! 1 = Ev_calloc 14 1
        \<and> heap w' 2 = Some (CharBuf [0x43, 0x3A, 0x5C, 0x64, 0x72, 0x69, 0x76, 0x65, 0x72, 0x73, 0x5C, 0x76, 0x31, 0])"
proof -
  let ?r = "\<lambda>k. (zero_queryregistry_info k)
          \<lparr>QueryType := DXCORE_QUERYREGISTRY_DRIVERSTOREPATH, OutputValueSize := 52, Output := sim_path\<rparr>"
  let ?cs = "takeWhile (\<lambda>c. c \<noteq> 0) (take 13 (Output (?r 16)))"
  have two: "Suc (Suc (brk sim_world)) = 2"
    by (simp add: sim_world_def)
  have cs: "?cs = sim_path"
    by (simp add: sim_path_def)
  have "\<exists>w' buf. dxcore_query_adapter_driverstore (sim_env 2700 52 sim_path) sim_lib 7 NULL sim_world =
           Inr (0, Suc (Suc (brk sim_world)), w')
           \<and> trace w' = Ev_free (Suc (brk sim_world)) # Ev_calloc (13 + 1) 1 #
                 Ev_QueryAdapterInfo (driverstore_fill_query 7 52) #
                 Ev_calloc (sizeof_dxcore_queryregistry_info + 52 + sizeof_wchar_t) 1 #
                 Ev_QueryAdapterInfo (driverstore_probe_query 7) # trace sim_world
           \<and> heap w' (Suc (Suc (brk sim_world))) = Some (CharBuf buf)
           \<and> length buf = 13 + 1 \<and> last buf = 0
           \<and> ((\<forall>c\<in>set ?cs. \<exists>b. wctomb_res (sim_env 2700 52 sim_path) c = Some [b]) \<longrightarrow>
                buf = map (\<lambda>c. hd (the (wctomb_res (sim_env 2700 52 sim_path) c))) ?cs
                  @ replicate (13 + 1 - length ?cs) 0)"
    by (rule driverstore_path_content [where r = "?r 2" and N = 52, OF _ refl _ _ _ _ refl _ refl _ refl _ refl])
       (simp_all add: DXCORE_MAX_PATH_def sizeof_wchar_t_def)
  then obtain w' buf where
    res: "dxcore_query_adapter_driverstore (sim_env 2700 52 sim_path) sim_lib 7 NULL sim_world = Inr (0, 2, w')"
    and tr: "trace w' = Ev_free (Suc (brk sim_world)) # Ev_calloc (13 + 1) 1 #
                 Ev_QueryAdapterInfo (driverstore_fill_query 7 52) #
                 Ev_calloc (sizeof_dxcore_queryregistry_info + 52 + sizeof_wchar_t) 1 #
                 Ev_QueryAdapterInfo (driverstore_probe_query 7) # trace sim_world"
    and hp: "heap w' 2 = Some (CharBuf buf)"
    and buf: "(\<forall>c\<in>set sim_path. \<exists>b. wctomb_posix c = Some [b]) \<longrightarrow>
                buf = map (\<lambda>c. hd (the (wctomb_posix c))) sim_path @ replicate (13 + 1 - length sim_path) 0"
    unfolding two cs sim_env_simps by blast
  have "buf = [0x43, 0x3A, 0x5C, 0x64, 0x72, 0x69, 0x76, 0x65, 0x72, 0x73, 0x5C, 0x76, 0x31, 0]"
    using buf by (simp add: sim_path_def wctomb_posix_def)
  with res tr hp show ?thesis by simp
qed

text \<open>
  C3 as stated fails where a wide character has no one-byte form. The platform reports
  a path of 4 bytes, the one wide character U+4E2D; the call succeeds and the string it
  returns is empty, in a buffer of 2 bytes.
\<close>

theorem unconvertible_path_counterexample:
  "observe_path (dxcore_query_adapter_driverstore (sim_env 2700 4 [0x4E2D]) sim_lib 7 NULL sim_world) =
     Some (0, 2, Some (CharBuf [0, 0]))"
  by (simp add: sim_driverstore [OF _ refl refl] observe_path_def sim_world_def wctomb_posix_def
      sizeof_wchar_t_def replicate_numeral)

text \<open>A path of length zero gives an empty string in a buffer of one byte, and success.\<close>

lemma zero_length_path:
  "observe_path (dxcore_query_adapter_driverstore (sim_env 2700 0 []) sim_lib 7 NULL sim_world) =
     Some (0, 2, Some (CharBuf [0]))"
  by (simp add: sim_driverstore [OF _ refl refl] observe_path_def sim_world_def wctomb_posix_def
      sizeof_wchar_t_def replicate_numeral)

section \<open>The conversion to a narrow string\<close>

text \<open>
  C10. \<^verbatim>\<open>dxcore_query_adapter_driverstore\<close> does not look at what \<^verbatim>\<open>wcstombs\<close>
  returns: its return value and the pointer it hands back are the same whatever the
  conversion does with each character, so a string that cannot be converted still gives
  success. Whenever it returns 0 the buffer it hands back is not null, not empty and
  ends in a null byte, because the buffer has one byte more than \<^verbatim>\<open>wcstombs\<close> may
  write and starts out zeroed.
\<close>

theorem conversion_outcome_is_ignored:
  "observe_status (dxcore_query_adapter_driverstore (env\<lparr>wctomb_res := f\<rparr>) pLib h pp w) =
     observe_status (dxcore_query_adapter_driverstore env pLib h pp w)
   \<and> (dxcore_query_adapter_driverstore env pLib h pp w = Inr (0, path, w') \<longrightarrow>
        path \<noteq> NULL \<and> (\<exists>buf. heap w' path = Some (CharBuf buf) \<and> buf \<noteq> [] \<and> last buf = 0))"
  using status_ignores_conversion [where env = env and f = f and pLib = pLib and h = h and pp = pp and w = w]
    success_null_terminated [where env = env and pLib = pLib and h = h and pp = pp and w = w and path = path and w' = w']
  by blast

theorem conversion_outcome_is_ignored_witness:
  "snd (wcstombs wctomb_posix [0x4E2D, 0] 1) = -1
   \<and> (\<exists>w' buf. dxcore_query_adapter_driverstore (sim_env 2700 4 [0x4E2D]) sim_lib 7 NULL sim_world = Inr (0, 2, w')
          \<and> heap w' 2 = Some (CharBuf buf) \<and> buf \<noteq> [] \<and> last buf = 0)"
proof -
  have "\<exists>w'. dxcore_query_adapter_driverstore (sim_env 2700 4 [0x4E2D]) sim_lib 7 NULL sim_world = Inr (0, 2, w')"
    by (simp add: sim_driverstore [OF _ refl refl] sim_world_def)
  then obtain w' where
    r: "dxcore_query_adapter_driverstore (sim_env 2700 4 [0x4E2D]) sim_lib 7 NULL sim_world = Inr (0, 2, w')"
    by blast
  from conversion_outcome_is_ignored [where env = "sim_env 2700 4 [0x4E2D]" and pLib = sim_lib and h = 7
      and pp = NULL and w = sim_world and path = 2 and w' = w'] r
  have "\<exists>buf. heap w' 2 = Some (CharBuf buf) \<and> buf \<noteq> [] \<and> last buf = 0" by blast
  moreover have "snd (wcstombs wctomb_posix [0x4E2D, 0] 1) = -1"
    by (simp add: wctomb_posix_def)
  ultimately show ?thesis using r by blast
qed

section \<open>Failure of the library resolver\<close>

text \<open>
  C4. When \<^verbatim>\<open>dlopen\<close> fails, or either \<^verbatim>\<open>dlsym\<close> returns null,
  \<^verbatim>\<open>dxcore_init_context\<close> returns \<open>-1\<close>. The session then has adapter count 0, a
  null list and \<open>initialized = 0\<close>; the heap is as it was. The trace shows that the
  session was torn down (the \<^verbatim>\<open>free\<close> of the null list in
  \<^verbatim>\<open>dxcore_deinit_context\<close>) and that the last call before returning is the
  \<^verbatim>\<open>dlclose\<close> of the handle when the library had been loaded, and that there is no
  \<^verbatim>\<open>dlclose\<close> when it had not.
\<close>

theorem resolver_failure_tears_down:
  assumes p: "pCtx \<noteq> NULL" and ctx: "ctxs w pCtx = Some ctx"
    and t1: "t1 = Ev_dlopen ''libdxcore.so'' # trace w"
    and h: "h = dlopen_res env t1"
    and t2: "t2 = Ev_dlsym h ''D3DKMTEnumAdapters2'' # t1"
    and f1: "f1 = dlsym_res env t2"
    and t3: "t3 = Ev_dlsym h ''D3DKMTQueryAdapterInfo'' # t2"
    and f2: "f2 = dlsym_res env t3"
    and bad: "h = NULL \<or> f1 = NULL \<or> f2 = NULL"
  shows "\<exists>w'. dxcore_init_context env pCtx w = Inr (-1, w')
           \<and> ctxs w' pCtx = Some (ctx\<lparr>adapterCount := 0, adapterList := NULL, initialized := 0\<rparr>)
           \<and> heap w' = heap w
           \<and> trace w' = (if h = NULL then Ev_free NULL # t1
                          else Ev_dlclose h # Ev_free NULL # (if f1 = NULL then t2 else t3))"
  by (simp add: init_unresolved [OF p ctx t1 h t2 f1 t3 f2 bad])

theorem resolver_failure_tears_down_witness:
  "\<exists>w'. dxcore_init_context (sim_env_no_symbol 2700 52 sim_path) 1000 sim_world = Inr (-1, w')
        \<and> ctxs w' 1000 = Some \<lparr>adapterCount = 0, adapterList = NULL, initialized = 0\<rparr>
        \<and> heap w' = heap sim_world
        \<and> trace w' = [Ev_dlclose 100, Ev_free NULL, Ev_dlsym 100 ''D3DKMTQueryAdapterInfo'',
                       Ev_dlsym 100 ''D3DKMTEnumAdapters2'', Ev_dlopen ''libdxcore.so'']"
  using resolver_failure_tears_down [where env = "sim_env_no_symbol 2700 52 sim_path" and pCtx = 1000
      and w = sim_world and ctx = "\<lparr>adapterCount = 9, adapterList = 77, initialized = 5\<rparr>",
      OF _ _ refl refl refl refl refl refl]
  by (simp add: sim_env_no_symbol_def sim_world_def)

section \<open>The candidate buffer\<close>

text \<open>
  C9. \<^verbatim>\<open>dxcore_enum_adapters\<close> does not check the result of \<^verbatim>\<open>malloc\<close>. When
  the size probe reports \<open>N > 0\<close> adapters and the allocation fails, the second call
  to \<^verbatim>\<open>D3DKMTEnumAdapters2\<close> is made with a null buffer and the count \<open>N\<close>. If
  that call reports success and a count that is not 0, the loop reads through the null
  pointer; otherwise the function returns after \<^verbatim>\<open>free(NULL)\<close>.
\<close>

theorem unchecked_candidate_buffer:
  assumes lib: "pDxcoreEnumAdapters2 pLib \<noteq> NULL"
    and tp: "tp = Ev_EnumAdapters2 0 NULL # trace w"
    and probe: "EnumAdapters2_res env tp = (0, N, i0)"
    and N: "N \<noteq> 0"
    and tm: "tm = Ev_malloc (sizeof_dxcore_adapterInfo * unat N) # tp"
    and fail: "\<not> alloc_res env tm"
    and tf: "tf = Ev_EnumAdapters2 N NULL # tm"
    and fill: "EnumAdapters2_res env tf = (rc2, N2, infos)"
  shows "call_EnumAdapters2 env pLib N NULL (w\<lparr>trace := tm\<rparr>) = Inr (rc2, N2, w\<lparr>trace := tf\<rparr>)
         \<and> dxcore_enum_adapters env pCtx pLib w =
             (if rc2 = 0 \<and> N2 \<noteq> 0 then Inl NullDeref else Inr (w\<lparr>trace := Ev_free NULL # tf\<rparr>))"
proof -
  have c: "call_EnumAdapters2 env pLib N NULL (w\<lparr>trace := tm\<rparr>) = Inr (rc2, N2, w\<lparr>trace := tf\<rparr>)"
    using call_EnumAdapters2_eq [OF lib, of env N NULL "w\<lparr>trace := tm\<rparr>" rc2 N2 infos] fill
    by (simp add: tf)
  have P: "NULL = (if alloc_res env tm then Suc (brk w) else NULL)" using fail by simp
  have w3: "w\<lparr>trace := tf\<rparr> = w\<lparr>heap := (if NULL = NULL then heap w else (heap w)(NULL \<mapsto> InfoArr infos)),
                   brk := (if NULL = NULL then brk w else Suc (brk w)), trace := tf\<rparr>"
    by simp
  note e = enum_adapters_eq [OF lib tp probe tm P tf fill w3, of pCtx]
  have l: "dxcore_enum_adapters_loop env pCtx pLib NULL 0 (unat N2) (w\<lparr>trace := tf\<rparr>) =
             (if N2 \<noteq> 0 then Inl NullDeref else Inr (w\<lparr>trace := tf\<rparr>))"
    by (simp add: dxcore_enum_adapters_loop.simps [of _ _ _ _ 0] read_adapterInfo_def unat_gt_0)
  have z: "dxcore_enum_adapters_loop env pCtx pLib NULL 0 0 (w\<lparr>trace := tf\<rparr>) = Inr (w\<lparr>trace := tf\<rparr>)"
    by (simp add: dxcore_enum_adapters_loop.simps [of _ _ _ _ 0])
  show ?thesis
    using c by (simp add: e l z free_null)
qed

theorem unchecked_candidate_buffer_witness:
  "call_EnumAdapters2 (sim_env_no_malloc 2700 52 sim_path) sim_lib 1 NULL
      (sim_world0\<lparr>trace := [Ev_malloc (sizeof_dxcore_adapterInfo * 1), Ev_EnumAdapters2 0 NULL]\<rparr>) =
     Inr (0, 1, sim_world0\<lparr>trace := [Ev_EnumAdapters2 1 NULL, Ev_malloc (sizeof_dxcore_adapterInfo * 1),
                                    Ev_EnumAdapters2 0 NULL]\<rparr>)
   \<and> dxcore_enum_adapters (sim_env_no_malloc 2700 52 sim_path) 1000 sim_lib sim_world0 = Inl NullDeref"
  using unchecked_candidate_buffer [where env = "sim_env_no_malloc 2700 52 sim_path" and pLib = sim_lib
      and w = sim_world0 and N = 1 and pCtx = 1000, OF _ refl _ _ refl _ refl]
  by (simp add: sim_env_no_malloc_def sim_world0_def)

section \<open>Initialisation once the library is resolved\<close>

text \<open>
  C7. With the library loaded and both entry points resolved,
  \<^verbatim>\<open>dxcore_init_context\<close> does not return success when the allocation of the
  candidate buffer fails: on the simulated platform, where the size probe reports one
  adapter, \<^verbatim>\<open>malloc\<close> then returns null, and the second call of
  \<^verbatim>\<open>D3DKMTEnumAdapters2\<close>, made with that null buffer, still reports success and one
  adapter, the loop over the candidates reads the first record through the null pointer.
  The result of \<^verbatim>\<open>malloc\<close> is used unchecked, where the results of both calls of
  \<^verbatim>\<open>calloc\<close> in \<^verbatim>\<open>dxcore_query_adapter_driverstore\<close> and of \<^verbatim>\<open>realloc\<close>
  in \<^verbatim>\<open>dxcore_add_adapter\<close> are checked.
\<close>

theorem init_faults_without_candidate_buffer:
  "dxcore_init_context (sim_env_no_malloc 2700 52 sim_path) 1000 sim_world = Inl NullDeref"
proof -
  let ?E = "sim_env_no_malloc 2700 52 sim_path"
  define w3 where "w3 = sim_world\<lparr>ctxs := (ctxs sim_world)(1000 \<mapsto>
        \<lparr>adapterCount = 9, adapterList = 77, initialized = 5\<rparr>\<lparr>adapterCount := 0, adapterList := NULL, initialized := 0\<rparr>),
      trace := [Ev_dlsym 100 ''D3DKMTQueryAdapterInfo'', Ev_dlsym 100 ''D3DKMTEnumAdapters2'',
                Ev_dlopen ''libdxcore.so'']\<rparr>"
  have i: "dxcore_init_context ?E 1000 sim_world =
           (case dxcore_enum_adapters ?E 1000 sim_lib w3 of
              Inl f \<Rightarrow> Inl f
            | Inr w4 \<Rightarrow>
                (case ctxs w4 1000 of
                   None \<Rightarrow> Inl InvalidPointer
                 | Some ctx4 \<Rightarrow>
                     Inr (0, w4\<lparr>ctxs := (ctxs w4)(1000 \<mapsto> ctx4\<lparr>initialized := 1\<rparr>),
                                trace := Ev_dlclose 100 # trace w4\<rparr>)))"
    by (subst init_resolved [where h = 100 and ?f1.0 = 200 and ?f2.0 = 200 and ?w3.0 = w3 and lib = sim_lib
          and ctx = "\<lparr>adapterCount = 9, adapterList = 77, initialized = 5\<rparr>", OF _ _ refl _ refl _ refl])
       (simp_all add: sim_world_def w3_def sim_lib_def sim_env_no_malloc_def)
  define tf where "tf = Ev_EnumAdapters2 1 NULL # Ev_malloc (sizeof_dxcore_adapterInfo * unat (1 :: uint)) #
      Ev_EnumAdapters2 0 NULL # trace w3"
  have e: "dxcore_enum_adapters ?E 1000 sim_lib w3 =
           (case dxcore_enum_adapters_loop ?E 1000 sim_lib NULL 0 (unat (1 :: uint)) (w3\<lparr>trace := tf\<rparr>) of
                    Inl f \<Rightarrow> Inl f
                  | Inr w4 \<Rightarrow> free NULL w4)"
    by (subst enum_adapters_eq [where rc = 0 and N = 1 and ?i0.0 = "[sim_info 7]" and ?rc2.0 = 0 and ?N2.0 = 1
          and infos = "[sim_info 7]" and ?w3.0 = "w3\<lparr>trace := tf\<rparr>" and P = NULL, OF _ refl _ refl _ refl])
       (simp_all add: tf_def sim_env_no_malloc_def)
  have l: "dxcore_enum_adapters_loop ?E 1000 sim_lib NULL 0 (unat (1 :: uint)) (w3\<lparr>trace := tf\<rparr>) = Inl NullDeref"
    by (simp add: dxcore_enum_adapters_loop.simps [of _ _ _ _ 0] read_adapterInfo_def)
  show ?thesis unfolding i e l by simp
qed

text \<open>
  In every other run the initialisation succeeds. When the library loads and both entry
  points resolve, \<^verbatim>\<open>dxcore_init_context\<close> returns 0 with \<open>initialized = 1\<close>,
  closing the library last, whatever the two calls of \<^verbatim>\<open>D3DKMTEnumAdapters2\<close>
  return and whatever the queries for each candidate return, and when either call of the
  enumeration fails the session is left with no adapters; provided that, if both calls
  succeed, the candidate buffer was allocated unless no record is reported, and the
  platform has written as many records as it reports.
\<close>

theorem init_succeeds_once_resolved:
  assumes p: "pCtx \<noteq> NULL" and ctx: "ctxs w pCtx = Some ctx"
    and t1: "t1 = Ev_dlopen ''libdxcore.so'' # trace w"
    and h: "h = dlopen_res env t1"
    and t2: "t2 = Ev_dlsym h ''D3DKMTEnumAdapters2'' # t1"
    and f1: "f1 = dlsym_res env t2"
    and t3: "t3 = Ev_dlsym h ''D3DKMTQueryAdapterInfo'' # t2"
    and f2: "f2 = dlsym_res env t3"
    and ok: "h \<noteq> NULL" "f1 \<noteq> NULL" "f2 \<noteq> NULL"
    and tp: "tp = Ev_EnumAdapters2 0 NULL # t3"
    and probe: "EnumAdapters2_res env tp = (rc, N, i0)"
    and tm: "tm = Ev_malloc (sizeof_dxcore_adapterInfo * unat N) # tp"
    and P: "P = (if alloc_res env tm then Suc (brk w) else NULL)"
    and tf: "tf = Ev_EnumAdapters2 N P # tm"
    and fill: "EnumAdapters2_res env tf = (rc2, N2, infos)"
    and good: "rc = 0 \<and> rc2 = 0 \<longrightarrow> unat N2 \<le> length infos \<and> (P \<noteq> NULL \<or> N2 = 0)"
  shows "\<exists>w' ctx'. dxcore_init_context env pCtx w = Inr (0, w')
           \<and> ctxs w' pCtx = Some ctx' \<and> initialized ctx' = 1
           \<and> hd (trace w') = Ev_dlclose h
           \<and> (rc \<noteq> 0 \<or> rc2 \<noteq> 0 \<longrightarrow> adapterCount ctx' = 0 \<and> adapterList ctx' = NULL)"
proof -
  define fresh where "fresh = ctx\<lparr>adapterCount := 0, adapterList := NULL, initialized := 0\<rparr>"
  define w3 where "w3 = w\<lparr>ctxs := (ctxs w)(pCtx \<mapsto> fresh), trace := t3\<rparr>"
  define lib where "lib = \<lparr>hDxcoreLib = h, pDxcoreEnumAdapters2 = f1, pDxcoreQueryAdapterInfo = f2\<rparr>"
  note i = init_resolved [OF p ctx t1 h t2 f1 t3 f2 ok w3_def [unfolded fresh_def] lib_def]
  have c3: "ctxs w3 pCtx = Some fresh" by (simp add: w3_def)
  have tp3: "tp = Ev_EnumAdapters2 0 NULL # trace w3" by (simp add: tp w3_def)
  have P3: "P = (if alloc_res env tm then Suc (brk w3) else NULL)" by (simp add: P w3_def)
  from enum_adapters_total [where pLib = lib, OF _ _ c3 _ _ tp3 probe tm P3 tf fill good] ok
  obtain w4 ctx4 where
    e: "dxcore_enum_adapters env pCtx lib w3 = Inr w4"
    and c4: "ctxs w4 pCtx = Some ctx4"
    and same: "rc \<noteq> 0 \<or> rc2 \<noteq> 0 \<longrightarrow> ctxs w4 = ctxs w3"
    by (auto simp: lib_def fresh_def)
  have "rc \<noteq> 0 \<or> rc2 \<noteq> 0 \<longrightarrow> ctx4 = fresh"
    using same c3 c4 by auto
  then show ?thesis
    using i e c4 by (auto simp: fresh_def)
qed


theorem init_succeeds_once_resolved_witness:
  "\<exists>w' ctx'. dxcore_init_context (sim_env 2699 52 sim_path) 1000 sim_world = Inr (0, w')
           \<and> ctxs w' 1000 = Some ctx' \<and> initialized ctx' = 1
           \<and> hd (trace w') = Ev_dlclose 100"
  using init_succeeds_once_resolved [where env = "sim_env 2699 52 sim_path" and pCtx = 1000 and w = sim_world
      and ctx = "\<lparr>adapterCount = 9, adapterList = 77, initialized = 5\<rparr>"
      and rc = 0 and N = 1 and ?i0.0 = "[sim_info 7]" and ?rc2.0 = 0 and ?N2.0 = 1 and infos = "[sim_info 7]",
      OF _ _ refl refl refl refl refl refl _ _ _ refl _ refl refl refl]
  by (simp add: sim_world_def)

section \<open>The fields of an appended adapter\<close>

text \<open>
  C8, as amended. When a candidate passes both queries and the list grows,
  \<^verbatim>\<open>dxcore_add_adapter\<close> leaves the earlier adapters of the registry as they were
  and adds one entry whose \<open>hAdapter\<close> is the handle of the candidate, whose
  \<open>wddmVersion\<close> is the version the platform reported and whose
  \<open>pDriverStorePath\<close> is the string that was resolved.
\<close>

theorem appended_entry_fields:
  assumes lib: "pDxcoreQueryAdapterInfo pLib \<noteq> NULL"
    and ctx: "ctxs w pCtx = Some ctx"
    and wf: "adapterList ctx \<le> brk w"
    and old: "old = (if adapterList ctx = NULL then [] else xs)"
    and live: "adapterList ctx \<noteq> NULL \<longrightarrow> heap w (adapterList ctx) = Some (AdapterArr xs)"
    and len: "length old = unat (adapterCount ctx)"
    and nz: "adapterCount ctx + 1 \<noteq> 0"
    and t0: "t0 = Ev_QueryAdapterInfo (version_query (info_hAdapter c)) # trace w"
    and ver: "QueryAdapterInfo_res env t0 = (0, VersionData v)"
    and gate: "2700 \<le> v"
    and path: "dxcore_query_adapter_driverstore env pLib (info_hAdapter c) NULL (w\<lparr>trace := t0\<rparr>) = Inr (0, path, w2)"
    and t5: "t5 = Ev_realloc (adapterList ctx) (sizeof_dxcore_adapter * unat (adapterCount ctx + 1)) # trace w2"
    and ok: "alloc_res env t5"
  shows "\<exists>w' e. dxcore_add_adapter env pCtx pLib c w = Inr w'
           \<and> registry w' pCtx = old @ [e]
           \<and> hAdapter e = info_hAdapter c \<and> wddmVersion e = v \<and> pDriverStorePath e = path"
  using add_adapter_appends [OF lib ctx wf old live len nz t0 ver gate path t5 ok] by blast

theorem appended_entry_fields_witness:
  "\<exists>w' e. dxcore_add_adapter (sim_env 2700 52 sim_path) 1000 sim_lib (sim_info 7) sim_world0 = Inr w'
           \<and> registry w' 1000 = [e]
           \<and> hAdapter e = 7 \<and> wddmVersion e = 2700 \<and> pDriverStorePath e = 2"
  using appended_entry_fields [where env = "sim_env 2700 52 sim_path" and pLib = sim_lib and pCtx = 1000
      and w = sim_world0 and c = "sim_info 7" and v = 2700 and xs = "[]"
      and ctx = "\<lparr>adapterCount = 0, adapterList = NULL, initialized = 0\<rparr>",
      OF _ _ _ refl _ _ _ refl sim_version_step _ sim_driverstore [OF _ refl refl] refl]
  by (simp add: sim_world0_def sim_info_def numeral_2_eq_2 [symmetric])

text \<open>
  C8 as stated fails: \<^verbatim>\<open>struct dxcore_adapter\<close> has no field for the LUID, and
  \<^verbatim>\<open>dxcore_add_adapter\<close> never writes \<open>pContext\<close>. On the simulated platform,
  where fresh memory is zero, the adapter that initialisation registers for the session
  at address 1000 has a null \<open>pContext\<close>.
\<close>

theorem entry_without_back_reference_counterexample:
  "dxcore_init_context (sim_env 2700 52 sim_path) 1000 sim_world = Inr (0, sim_session\<lparr>trace := sim_init_trace\<rparr>)
   \<and> map pContext (registry (sim_session\<lparr>trace := sim_init_trace\<rparr>) 1000) = [NULL]
   \<and> map hAdapter (registry (sim_session\<lparr>trace := sim_init_trace\<rparr>) 1000) = [7]"
  by (simp add: sim_init) (simp add: registry_def sim_session_def zero_adapter_def)

section \<open>A failed append\<close>



section \<open>The version gate\<close>

text \<open>
  C2. \<^verbatim>\<open>dxcore_add_adapter\<close> admits a candidate exactly from driver model version
  2700 on. When the version query succeeds with a version below 2700 the candidate is
  skipped: nothing but the trace changes. With a version of 2700 or more, a resolved
  path and a list that grows, the candidate is appended with that version; 2700
  itself is admitted and 2699 is not. Every adapter in the registry of a session that
  \<^verbatim>\<open>dxcore_init_context\<close> has returned from has a version of 2700 or more.
\<close>

theorem version_gate:
  assumes lib: "pDxcoreQueryAdapterInfo pLib \<noteq> NULL"
    and t0: "t0 = Ev_QueryAdapterInfo (version_query (info_hAdapter c)) # trace w"
    and ver: "QueryAdapterInfo_res env t0 = (0, VersionData v)"
  shows "(v < 2700 \<longrightarrow> dxcore_add_adapter env pCtx pLib c w = Inr (w\<lparr>trace := t0\<rparr>))
       \<and> (2700 \<le> v \<longrightarrow> ctxs w pCtx = Some ctx \<longrightarrow> adapterList ctx \<le> brk w \<longrightarrow>
            (adapterList ctx \<noteq> NULL \<longrightarrow> heap w (adapterList ctx) = Some (AdapterArr xs)) \<longrightarrow>
            length (if adapterList ctx = NULL then [] else xs) = unat (adapterCount ctx) \<longrightarrow>
            adapterCount ctx + 1 \<noteq> 0 \<longrightarrow>
            dxcore_query_adapter_driverstore env pLib (info_hAdapter c) NULL (w\<lparr>trace := t0\<rparr>) = Inr (0, path, w2) \<longrightarrow>
            alloc_res env (Ev_realloc (adapterList ctx) (sizeof_dxcore_adapter * unat (adapterCount ctx + 1)) # trace w2) \<longrightarrow>
            (\<exists>w' e. dxcore_add_adapter env pCtx pLib c w = Inr w'
                \<and> registry w' pCtx = (if adapterList ctx = NULL then [] else xs) @ [e]
                \<and> wddmVersion e = v))
       \<and> (dxcore_init_context env0 pCtx0 w0 = Inr (rc, w1) \<longrightarrow>
            list_all (\<lambda>a. 2700 \<le> wddmVersion a) (registry w1 pCtx0))"
proof (intro conjI impI)
  assume "v < 2700"
  then show "dxcore_add_adapter env pCtx pLib c w = Inr (w\<lparr>trace := t0\<rparr>)"
    by (intro add_adapter_below_gate [OF lib t0 ver]) simp
next
  assume "2700 \<le> v" "ctxs w pCtx = Some ctx" "adapterList ctx \<le> brk w"
    "adapterList ctx \<noteq> NULL \<longrightarrow> heap w (adapterList ctx) = Some (AdapterArr xs)"
    "length (if adapterList ctx = NULL then [] else xs) = unat (adapterCount ctx)"
    "adapterCount ctx + 1 \<noteq> 0"
    "dxcore_query_adapter_driverstore env pLib (info_hAdapter c) NULL (w\<lparr>trace := t0\<rparr>) = Inr (0, path, w2)"
    "alloc_res env (Ev_realloc (adapterList ctx) (sizeof_dxcore_adapter * unat (adapterCount ctx + 1)) # trace w2)"
  from add_adapter_appends [OF lib this(2,3) refl this(4,5,6) t0 ver this(1,7) refl this(8)]
  show "\<exists>w' e. dxcore_add_adapter env pCtx pLib c w = Inr w'
                \<and> registry w' pCtx = (if adapterList ctx = NULL then [] else xs) @ [e]
                \<and> wddmVersion e = v"
    by blast
next
  assume "dxcore_init_context env0 pCtx0 w0 = Inr (rc, w1)"
  then show "list_all (\<lambda>a. 2700 \<le> wddmVersion a) (registry w1 pCtx0)"
    by (rule init_registry)
qed

theorem version_gate_witness:
  "dxcore_add_adapter (sim_env 2699 52 sim_path) 1000 sim_lib (sim_info 7) sim_world0 =
     Inr (sim_world0\<lparr>trace := [Ev_QueryAdapterInfo (version_query 7)]\<rparr>)
   \<and> (\<exists>w' e. dxcore_add_adapter (sim_env 2700 52 sim_path) 1000 sim_lib (sim_info 7) sim_world0 = Inr w'
          \<and> registry w' 1000 = [e] \<and> wddmVersion e = 2700)
   \<and> registry (sim_session\<lparr>trace := sim_init_trace\<rparr>) 1000 \<noteq> []
   \<and> list_all (\<lambda>a. 2700 \<le> wddmVersion a) (registry (sim_session\<lparr>trace := sim_init_trace\<rparr>) 1000)"
proof -
  have below: "(2699 :: uint) < 2700" by simp
  have A: "dxcore_add_adapter (sim_env 2699 52 sim_path) 1000 sim_lib (sim_info 7) sim_world0 =
     Inr (sim_world0\<lparr>trace := [Ev_QueryAdapterInfo (version_query 7)]\<rparr>)"
    using version_gate [where env = "sim_env 2699 52 sim_path" and pLib = sim_lib and c = "sim_info 7"
        and w = sim_world0 and v = 2699 and pCtx = 1000, OF _ refl sim_version_step, THEN conjunct1, rule_format, OF _ below]
    by (simp add: sim_world0_def sim_info_def)
  have "\<exists>W. dxcore_query_adapter_driverstore (sim_env 2700 52 sim_path) sim_lib (info_hAdapter (sim_info 7)) NULL
             (sim_world0\<lparr>trace := Ev_QueryAdapterInfo (version_query (info_hAdapter (sim_info 7))) # trace sim_world0\<rparr>) =
           Inr (0, 2, W)"
    by (subst sim_driverstore [OF _ refl refl]) (simp_all add: sim_world0_def)
  then obtain W where d: "dxcore_query_adapter_driverstore (sim_env 2700 52 sim_path) sim_lib (info_hAdapter (sim_info 7)) NULL
             (sim_world0\<lparr>trace := Ev_QueryAdapterInfo (version_query (info_hAdapter (sim_info 7))) # trace sim_world0\<rparr>) =
           Inr (0, 2, W)" by blast
  have B: "\<exists>w' e. dxcore_add_adapter (sim_env 2700 52 sim_path) 1000 sim_lib (sim_info 7) sim_world0 = Inr w'
          \<and> registry w' 1000 = [e] \<and> wddmVersion e = 2700"
    using version_gate [where env = "sim_env 2700 52 sim_path" and pLib = sim_lib and c = "sim_info 7"
        and w = sim_world0 and v = 2700 and pCtx = 1000 and xs = "[]" and path = 2 and ?w2.0 = W
        and ctx = "\<lparr>adapterCount = 0, adapterList = NULL, initialized = 0\<rparr>",
        OF _ refl sim_version_step, THEN conjunct2, THEN conjunct1, rule_format, OF _ _ _ _ _ _ _ d]
    by (simp add: sim_world0_def)
  have C: "list_all (\<lambda>a. 2700 \<le> wddmVersion a) (registry (sim_session\<lparr>trace := sim_init_trace\<rparr>) 1000)"
    using version_gate [where env = "sim_env 2700 52 sim_path" and pLib = sim_lib and c = "sim_info 7"
        and w = sim_world0, OF _ refl sim_version_step, THEN conjunct2, THEN conjunct2, rule_format, OF _ sim_init]
    by simp
  have D: "registry (sim_session\<lparr>trace := sim_init_trace\<rparr>) 1000 \<noteq> []"
    by (simp add: registry_def sim_session_def)
  from A B C D show ?thesis by blast
qed

section \<open>Teardown\<close>




end
